theory Spec2Isabelle
  imports Main "HOL-Library.Multiset" "HOL-Library.Sublist"
begin

section \<open>Values exchanged with the remote functions\<close>

text \<open>
  The scripts move decoded JSON documents between the HTTP layer and their callers.
  A Python \<open>dict\<close> is an association list in insertion order, looked up with
  \<open>map_of\<close>; Python's \<open>None\<close> is \<open>JNull\<close>. JSON numbers are integers here.
\<close>

datatype json =
    JNull
  | JBool bool
  | JNum int
  | JStr string
  | JArr "json list"
  | JObj "(string \<times> json) list"

text \<open>
  The exceptions that can travel through the scripts. \<open>Timeout\<close>, \<open>ConnectionError\<close>
  (any other transport failure), \<open>HTTPError\<close> (raised by \<open>raise_for_status\<close>, carrying
  the status code and the text of the response) and \<open>JSONDecodeError\<close> (raised by \<open>response.json()\<close>) are
  subclasses of \<open>requests.exceptions.RequestException\<close>; the others are builtin
  exceptions raised by operations on values of the wrong type.
\<close>

datatype exn =
    Timeout
  | ConnectionError
  | HTTPError int string
  | JSONDecodeError
  | AttributeError
  | TypeError
  | KeyError
  | IndexError
  | ValueError
  | OverflowError
  | OSError

fun is_request_exception :: "exn \<Rightarrow> bool" where
  "is_request_exception Timeout = True"
| "is_request_exception ConnectionError = True"
| "is_request_exception (HTTPError st txt) = True"
| "is_request_exception JSONDecodeError = True"
| "is_request_exception e = False"

text \<open>
  What one HTTP request can produce: a timeout, another transport failure, or a response
  with its status code, its body text and the document \<open>response.json()\<close> decodes
  from the body (\<open>None\<close> when the body is not JSON and decoding raises).
\<close>

datatype net_outcome =
    NetTimeout
  | NetError
  | Response int string "json option"

text \<open>The effects the claims are about, recorded in the order they happen.\<close>

datatype event =
    Post string
  | Get string
  | Sleep int
  | Open_file string
  | Write_text string string
  | Dump_json string json

text \<open>Python truthiness of a decoded JSON value.\<close>

fun truthy :: "json \<Rightarrow> bool" where
  "truthy JNull = False"
| "truthy (JBool b) = b"
| "truthy (JNum n) = (n \<noteq> 0)"
| "truthy (JStr s) = (s \<noteq> [])"
| "truthy (JArr xs) = (xs \<noteq> [])"
| "truthy (JObj d) = (d \<noteq> [])"

text \<open>\<open>obj.get(key, default)\<close>: only a dict has the method.\<close>

fun py_get :: "json \<Rightarrow> string \<Rightarrow> json \<Rightarrow> exn + json" where
  "py_get (JObj d) k dflt = Inr (case map_of d k of None \<Rightarrow> dflt | Some v \<Rightarrow> v)"
| "py_get v k dflt = Inl AttributeError"

text \<open>\<open>len(v)\<close>: defined on strings, lists and dicts.\<close>

fun py_len :: "json \<Rightarrow> exn + nat" where
  "py_len (JStr s) = Inr (length s)"
| "py_len (JArr xs) = Inr (length xs)"
| "py_len (JObj d) = Inr (length d)"
| "py_len v = Inl TypeError"

text \<open>\<open>v[:n]\<close>: strings and lists can be sliced.\<close>

fun py_slice :: "json \<Rightarrow> nat \<Rightarrow> exn + json" where
  "py_slice (JStr s) n = Inr (JStr (take n s))"
| "py_slice (JArr xs) n = Inr (JArr (take n xs))"
| "py_slice v n = Inl TypeError"

text \<open>\<open>response.raise_for_status()\<close>: client and server errors raise.\<close>

definition raise_for_status :: "int \<Rightarrow> string \<Rightarrow> exn option" where
  "raise_for_status st txt =
     (if 400 \<le> st \<and> st < 600 then Some (HTTPError st txt) else None)"

text \<open>Decimal rendering of an integer inside an f-string.\<close>

fun str_nat :: "nat \<Rightarrow> string" where
  "str_nat n =
     (if n < 10 then [char_of (48 + n)]
      else str_nat (n div 10) @ [char_of (48 + n mod 10)])"

declare str_nat.simps [simp del]

definition str_int :: "int \<Rightarrow> string" where
  "str_int i = (if i < 0 then CHR ''-'' # str_nat (nat (- i)) else str_nat (nat i))"

section \<open>Job submission (content-intake)\<close>

text \<open>
  \<open>submit_job\<close> of test-content-intake.py and of test-medidrive-content.py: one POST;
  status 200 or 202 decodes the reply and returns its \<open>job_id\<close>; any other status
  returns \<open>None\<close>; a \<open>RequestException\<close> is caught and returns \<open>None\<close>. The two
  files differ only in what they print.
\<close>

definition submit_job_body :: "net_outcome \<Rightarrow> exn + json" where
  "submit_job_body out =
     (case out of
        NetTimeout \<Rightarrow> Inl Timeout
      | NetError \<Rightarrow> Inl ConnectionError
      | Response st txt js \<Rightarrow>
          if st \<in> set [200, 202] then
            (case js of
               None \<Rightarrow> Inl JSONDecodeError
             | Some data \<Rightarrow> py_get data ''job_id'' JNull)
          else Inr JNull)"

definition submit_job :: "net_outcome \<Rightarrow> event list \<times> (exn + json)" where
  "submit_job out =
     ([Post ''/functions/v1/content-intake''],
      (case submit_job_body out of
         Inl e \<Rightarrow> if is_request_exception e then Inr JNull else Inl e
       | Inr v \<Rightarrow> Inr v))"

section \<open>Side-by-side HTML generation\<close>

text \<open>
  \<open>GenerateSideBySide.generate_html\<close>: the body of the \<open>try\<close>. Both handlers print and
  re-raise, so every exception of the body leaves the method unchanged. On the success
  branch the method prints \<open>len(result.get('html', ''))\<close>, which raises for a value
  without a length.
\<close>

definition generate_html :: "net_outcome \<Rightarrow> exn + json" where
  "generate_html out =
     (case out of
        NetTimeout \<Rightarrow> Inl Timeout
      | NetError \<Rightarrow> Inl ConnectionError
      | Response st txt js \<Rightarrow>
          (case raise_for_status st txt of
             Some e \<Rightarrow> Inl e
           | None \<Rightarrow>
               (case js of
                  None \<Rightarrow> Inl JSONDecodeError
                | Some result \<Rightarrow>
                    (case py_get result ''success'' JNull of
                       Inl e \<Rightarrow> Inl e
                     | Inr s \<Rightarrow>
                         if truthy s then
                           (case py_get result ''html'' (JStr []) of
                              Inl e \<Rightarrow> Inl e
                            | Inr h \<Rightarrow>
                                (case py_len h of
                                   Inl e \<Rightarrow> Inl e
                                 | Inr n \<Rightarrow> Inr result))
                         else Inr result))))"

text \<open>
  \<open>generate_html\<close> of generate-side-by-side-quickstart.py: no \<open>try\<close> at all; the
  result is returned on both branches.
\<close>

definition quickstart_generate_html :: "net_outcome \<Rightarrow> exn + json" where
  "quickstart_generate_html out =
     (case out of
        NetTimeout \<Rightarrow> Inl Timeout
      | NetError \<Rightarrow> Inl ConnectionError
      | Response st txt js \<Rightarrow>
          (case raise_for_status st txt of
             Some e \<Rightarrow> Inl e
           | None \<Rightarrow>
               (case js of
                  None \<Rightarrow> Inl JSONDecodeError
                | Some result \<Rightarrow>
                    (case py_get result ''success'' JNull of
                       Inl e \<Rightarrow> Inl e
                     | Inr s \<Rightarrow>
                         if truthy s then
                           (case py_get result ''html'' (JStr []) of
                              Inl e \<Rightarrow> Inl e
                            | Inr h \<Rightarrow>
                                (case py_len h of
                                   Inl e \<Rightarrow> Inl e
                                 | Inr n \<Rightarrow> Inr result))
                         else Inr result))))"

section \<open>Schema streaming test\<close>

text \<open>
  What the streaming request of test-schema-perfect.py can produce: a timeout, another
  transport failure, or a response with its status code, the lines \<open>iter_lines()\<close>
  yields (already decoded), and the exception that ends the iteration early, if any.
\<close>

datatype stream_outcome =
    StreamTimeout
  | StreamError
  | StreamResponse int "string list" "exn option"

text \<open>The loop keeps every non-empty line, followed by a newline.\<close>

definition full_response :: "string list \<Rightarrow> string" where
  "full_response ls =
     foldl (\<lambda>acc line. if line \<noteq> [] then acc @ line @ [CHR 0x0A] else acc) [] ls"

text \<open>
  \<open>re.sub(opn + '.*?' + cl, '', s, flags=re.DOTALL)\<close> for two literal markers: at
  the leftmost position where the opening marker starts and a closing marker follows,
  the text up to the end of the nearest closing marker is removed and the search goes
  on behind it. \<open>skip_to cl s\<close> is the text behind the first occurrence of \<open>cl\<close>.
\<close>

fun skip_to :: "string \<Rightarrow> string \<Rightarrow> string option" where
  "skip_to cl [] = (if cl = [] then Some [] else None)"
| "skip_to cl (c # cs) =
     (if prefix cl (c # cs) then Some (drop (length cl) (c # cs)) else skip_to cl cs)"

function re_sub_block :: "string \<Rightarrow> string \<Rightarrow> string \<Rightarrow> string" where
  "re_sub_block opn cl [] = []"
| "re_sub_block opn cl (c # cs) =
     (if opn \<noteq> [] \<and> prefix opn (c # cs) then
        (case skip_to cl (drop (length opn) (c # cs)) of
           Some rest \<Rightarrow> re_sub_block opn cl rest
         | None \<Rightarrow> c # re_sub_block opn cl cs)
      else c # re_sub_block opn cl cs)"
  by pat_completeness auto
termination
proof -
  have shorter: "skip_to cl s = Some r \<Longrightarrow> length r \<le> length s" for cl s r
    by (induction s) (auto split: if_splits)
  show ?thesis
    apply (relation "measure (\<lambda>(opn, cl, s). length s)")
       apply simp
      apply (auto dest!: shorter simp: neq_Nil_conv)
    done
qed

text \<open>
  \<open>str.strip()\<close> on text whose characters are code points below 256: the
  characters \<open>str.isspace\<close> accepts there.
\<close>

definition is_space :: "char \<Rightarrow> bool" where
  "is_space c = (c \<in> set [CHR 0x09, CHR 0x0A, CHR 0x0B, CHR 0x0C, CHR 0x0D,
                            CHR 0x1C, CHR 0x1D, CHR 0x1E, CHR 0x1F, CHR '' '',
                            CHR 0x85, CHR 0xA0])"

definition py_strip :: "string \<Rightarrow> string" where
  "py_strip s = rev (dropWhile is_space (rev (dropWhile is_space s)))"

text \<open>The two substitutions and the strip that precede \<open>json.loads\<close>.\<close>

definition cleaned_text :: "string \<Rightarrow> string" where
  "cleaned_text s =
     py_strip (re_sub_block ''<think>'' ''</think>''
                 (re_sub_block ''<processing>'' ''</processing>'' s))"

text \<open>
  What the function does with the decoded document before returning it: it prints
  \<open>schema.get('@type')\<close> and the first 60 characters of the headline, or else of the
  name, when the key is present.
\<close>

definition schema_report :: "json \<Rightarrow> exn + json" where
  "schema_report schema =
     (case py_get schema ''@type'' JNull of
        Inl e \<Rightarrow> Inl e
      | Inr ty \<Rightarrow>
          (case schema of
             JObj d \<Rightarrow>
               (case map_of d ''headline'' of
                  Some h \<Rightarrow> (case py_slice h 60 of Inl e \<Rightarrow> Inl e | Inr p \<Rightarrow> Inr schema)
                | None \<Rightarrow>
                    (case map_of d ''name'' of
                       Some n \<Rightarrow> (case py_slice n 60 of Inl e \<Rightarrow> Inl e | Inr p \<Rightarrow> Inr schema)
                     | None \<Rightarrow> Inr schema))
           | v \<Rightarrow> Inl AttributeError))"

text \<open>
  \<open>test_schema_perfect\<close>. \<open>json.loads\<close> is the parameter \<open>loads\<close> (\<open>None\<close> when it
  raises \<open>JSONDecodeError\<close>). Every exception is caught inside the function, which then
  returns \<open>None\<close>. The section flags of the loop only choose what is printed.
\<close>

definition test_schema_perfect :: "(string \<Rightarrow> json option) \<Rightarrow> stream_outcome \<Rightarrow> json" where
  "test_schema_perfect loads out =
     (case out of
        StreamTimeout \<Rightarrow> JNull
      | StreamError \<Rightarrow> JNull
      | StreamResponse st ls failure \<Rightarrow>
          if st \<noteq> 200 then JNull
          else
            (case failure of
               Some e \<Rightarrow> JNull
             | None \<Rightarrow>
                 (case loads (cleaned_text (full_response ls)) of
                    None \<Rightarrow> JNull
                  | Some schema \<Rightarrow>
                      (case schema_report schema of
                         Inl e \<Rightarrow> JNull
                       | Inr v \<Rightarrow> v))))"

text \<open>
  The shape of a streamed body in front of the JSON document: tagged blocks and
  whitespace between them. A block is delimited by its own markers when its content
  does not hold its closing marker; the content of a \<open><think>\<close> block must also be
  free of the marker that opens a \<open><processing>\<close> block, which is removed first.
\<close>

datatype segment = Processing string | Think string | Gap string

fun render :: "segment \<Rightarrow> string" where
  "render (Processing c) = ''<processing>'' @ c @ ''</processing>''"
| "render (Think c) = ''<think>'' @ c @ ''</think>''"
| "render (Gap w) = w"

fun well_formed :: "segment \<Rightarrow> bool" where
  "well_formed (Processing c) = (\<not> sublist ''</processing>'' c)"
| "well_formed (Think c) = (\<not> sublist ''</think>'' c \<and> \<not> sublist ''<processing>'' c)"
| "well_formed (Gap w) = list_all is_space w"

fun survives_first :: "segment \<Rightarrow> bool" where
  "survives_first (Processing c) = False"
| "survives_first s = True"

fun gap_text :: "segment \<Rightarrow> string" where
  "gap_text (Gap w) = w"
| "gap_text s = []"

section \<open>Retry helper\<close>

text \<open>Events of a callee come after the events already recorded.\<close>

fun emit :: "event list \<Rightarrow> event list \<times> 'a \<Rightarrow> event list \<times> 'a" where
  "emit es (tr, r) = (es @ tr, r)"

text \<open>
  \<open>time.sleep(d)\<close> with an integer argument. A negative argument raises
  \<open>ValueError\<close>. The argument is converted to a 64-bit count of nanoseconds, and one
  above 9223372036 raises \<open>OverflowError\<close>. Below that, the operating system refuses
  a delay it cannot wait for and the call raises \<open>OSError\<close>; \<open>os_limit\<close> is the
  largest delay the platform accepts. Every other argument sleeps.
\<close>

definition pause :: "int \<Rightarrow> int \<Rightarrow> exn + event list" where
  "pause os_limit d =
     (if d < 0 then Inl ValueError
      else if 9223372036 < d then Inl OverflowError
      else if os_limit < d then Inl OSError
      else Inr [Sleep d])"

text \<open>The delays \<open>time.sleep\<close> accepts.\<close>

definition sleep_accepts :: "int \<Rightarrow> int \<Rightarrow> bool" where
  "sleep_accepts os_limit d = (0 \<le> d \<and> d \<le> 9223372036 \<and> d \<le> os_limit)"

definition failed_after :: "int \<Rightarrow> json" where
  "failed_after n =
     JObj [(''success'', JBool False),
           (''error'', JStr (''Failed after '' @ str_int n @ '' attempts''))]"

text \<open>
  \<open>generate_with_retry\<close> of example_with_retries: the \<open>for\<close> loop over
  \<open>range(1, max_retries + 1)\<close>. \<open>net attempt\<close> is what the request of that attempt
  produces. Both \<open>except\<close> clauses have the same body (\<open>handler\<close>); the sleep of
  the \<open>else\<close> branch is inside the \<open>try\<close>, so its exception reaches the handler.
\<close>

fun retry_loop ::
  "int \<Rightarrow> (int \<Rightarrow> net_outcome) \<Rightarrow> int \<Rightarrow> int \<Rightarrow> int list \<Rightarrow>
   event list \<times> (exn + json)" where
  "retry_loop os_limit net max_retries retry_delay [] = ([], Inr (failed_after max_retries))"
| "retry_loop os_limit net max_retries retry_delay (attempt # rest) =
     (let handler =
        (if attempt < max_retries then
           (case pause os_limit retry_delay of
              Inl e \<Rightarrow> ([], Inl e)
            | Inr evs \<Rightarrow> emit evs (retry_loop os_limit net max_retries retry_delay rest))
         else retry_loop os_limit net max_retries retry_delay rest)
      in emit [Post ''/functions/v1/generate-side-by-side'']
        (case generate_html (net attempt) of
           Inl e \<Rightarrow> handler
         | Inr result \<Rightarrow>
             (case py_get result ''success'' JNull of
                Inl e \<Rightarrow> handler
              | Inr s \<Rightarrow>
                  if truthy s then ([], Inr result)
                  else if attempt < max_retries then
                    (case pause os_limit retry_delay of
                       Inl e \<Rightarrow> handler
                     | Inr evs \<Rightarrow>
                         emit evs (retry_loop os_limit net max_retries retry_delay rest))
                  else retry_loop os_limit net max_retries retry_delay rest)))"

definition generate_with_retry ::
  "int \<Rightarrow> (int \<Rightarrow> net_outcome) \<Rightarrow> int \<Rightarrow> int \<Rightarrow> event list \<times> (exn + json)" where
  "generate_with_retry os_limit net max_retries retry_delay =
     retry_loop os_limit net max_retries retry_delay [1..max_retries]"

text \<open>
  An attempt succeeds when \<open>generate_html\<close> returns a result whose \<open>success\<close> is
  true. \<open>round_trace\<close> is what a failed attempt that is not the last leaves in the
  trace: its request and the sleep behind it.
\<close>

definition attempt_ok :: "net_outcome \<Rightarrow> bool" where
  "attempt_ok out =
     (case generate_html out of
        Inl e \<Rightarrow> False
      | Inr result \<Rightarrow>
          (case py_get result ''success'' JNull of Inl e \<Rightarrow> False | Inr s \<Rightarrow> truthy s))"

definition round_trace :: "int \<Rightarrow> event list" where
  "round_trace d = [Post ''/functions/v1/generate-side-by-side'', Sleep d]"

section \<open>Hero-image generation\<close>

text \<open>The result dictionaries of the two hero-image functions.\<close>

definition prompt_failure :: "int \<Rightarrow> string \<Rightarrow> json" where
  "prompt_failure st txt =
     JObj [(''success'', JBool False),
           (''error'', JStr (''Prompt generation failed: HTTP '' @ str_int st)),
           (''details'', JStr (take 500 txt))]"

definition image_failure :: "int \<Rightarrow> string \<Rightarrow> json \<Rightarrow> json" where
  "image_failure st txt prompt_result =
     JObj [(''success'', JBool False),
           (''error'', JStr (''Image generation failed: HTTP '' @ str_int st)),
           (''details'', JStr (take 500 txt)),
           (''prompt_result'', prompt_result)]"

definition hero_success :: "json \<Rightarrow> json \<Rightarrow> json \<Rightarrow> json \<Rightarrow> json" where
  "hero_success prompt_result image_result url prompt_id =
     JObj [(''success'', JBool True),
           (''prompt_result'', prompt_result),
           (''image_result'', image_result),
           (''hero_image_url'', url),
           (''hero_image_prompt_id'', prompt_id)]"

text \<open>\<open>prompt_result.get('save_status', {}).get(key)\<close>.\<close>

definition save_status_field :: "json \<Rightarrow> string \<Rightarrow> exn + json" where
  "save_status_field prompt_result key =
     (case py_get prompt_result ''save_status'' (JObj []) of
        Inl e \<Rightarrow> Inl e
      | Inr save_status \<Rightarrow> py_get save_status key JNull)"

text \<open>
  \<open>generate_hero_image_from_unedited_content\<close> of generate-hero-image-helper.py:
  two requests on one client and no handler, so an exception leaves the function.
  \<open>net1\<close> and \<open>net2\<close> are what the first and the second request produce; the second
  is consulted only when the request is issued.
\<close>

definition generate_hero_image_from_unedited_content ::
  "net_outcome \<Rightarrow> net_outcome \<Rightarrow> event list \<times> (exn + json)" where
  "generate_hero_image_from_unedited_content net1 net2 =
     emit [Post ''/functions/v1/generate-hero-image-prompt'']
       (case net1 of
          NetTimeout \<Rightarrow> ([], Inl Timeout)
        | NetError \<Rightarrow> ([], Inl ConnectionError)
        | Response st1 txt1 js1 \<Rightarrow>
            if st1 \<noteq> 200 then ([], Inr (prompt_failure st1 txt1))
            else
              (case js1 of
                 None \<Rightarrow> ([], Inl JSONDecodeError)
               | Some prompt_result \<Rightarrow>
                   emit [Post ''/functions/v1/generate-hero-image'']
                     (case net2 of
                        NetTimeout \<Rightarrow> ([], Inl Timeout)
                      | NetError \<Rightarrow> ([], Inl ConnectionError)
                      | Response st2 txt2 js2 \<Rightarrow>
                          if st2 \<noteq> 200 then ([], Inr (image_failure st2 txt2 prompt_result))
                          else
                            (case js2 of
                               None \<Rightarrow> ([], Inl JSONDecodeError)
                             | Some image_result \<Rightarrow>
                                 (case py_get image_result ''hero_image_url'' JNull of
                                    Inl e \<Rightarrow> ([], Inl e)
                                  | Inr url \<Rightarrow>
                                      (case save_status_field prompt_result
                                              ''hero_image_prompt_id'' of
                                         Inl e \<Rightarrow> ([], Inl e)
                                       | Inr prompt_id \<Rightarrow>
                                           ([], Inr (hero_success prompt_result image_result
                                                       url prompt_id))))))))"

text \<open>
  \<open>generate_hero_image_from_unedited\<close> of generate-hero-image-from-unedited.py: the
  body of its \<open>try\<close>. Between the requests it reads the save status of the prompt
  result, and after the second it reads \<open>image_result.get('success')\<close>.
\<close>

definition hero_image_try ::
  "net_outcome \<Rightarrow> net_outcome \<Rightarrow> event list \<times> (exn + json)" where
  "hero_image_try net1 net2 =
     emit [Post ''/functions/v1/generate-hero-image-prompt'']
       (case net1 of
          NetTimeout \<Rightarrow> ([], Inl Timeout)
        | NetError \<Rightarrow> ([], Inl ConnectionError)
        | Response st1 txt1 js1 \<Rightarrow>
            if st1 \<noteq> 200 then ([], Inr (prompt_failure st1 txt1))
            else
              (case js1 of
                 None \<Rightarrow> ([], Inl JSONDecodeError)
               | Some prompt_result \<Rightarrow>
                   (case save_status_field prompt_result ''success'' of
                      Inl e \<Rightarrow> ([], Inl e)
                    | Inr saved \<Rightarrow>
                        emit [Post ''/functions/v1/generate-hero-image'']
                          (case net2 of
                             NetTimeout \<Rightarrow> ([], Inl Timeout)
                           | NetError \<Rightarrow> ([], Inl ConnectionError)
                           | Response st2 txt2 js2 \<Rightarrow>
                               if st2 \<noteq> 200 then
                                 ([], Inr (image_failure st2 txt2 prompt_result))
                               else
                                 (case js2 of
                                    None \<Rightarrow> ([], Inl JSONDecodeError)
                                  | Some image_result \<Rightarrow>
                                      (case py_get image_result ''success'' JNull of
                                         Inl e \<Rightarrow> ([], Inl e)
                                       | Inr ok \<Rightarrow>
                                           (case py_get image_result ''hero_image_url'' JNull of
                                              Inl e \<Rightarrow> ([], Inl e)
                                            | Inr url \<Rightarrow>
                                                (case save_status_field prompt_result
                                                        ''hero_image_prompt_id'' of
                                                   Inl e \<Rightarrow> ([], Inl e)
                                                 | Inr prompt_id \<Rightarrow>
                                                     ([], Inr (hero_success prompt_result
                                                                 image_result url
                                                                 prompt_id))))))))))"

text \<open>
  The three \<open>except\<close> clauses turn every exception into a failure result.
  \<open>timeout_repr\<close> is the rendering of the \<open>timeout\<close> argument and \<open>str_exn\<close> is
  \<open>str(e)\<close>; both come from outside the repository.
\<close>

definition hero_image_except :: "(exn \<Rightarrow> string) \<Rightarrow> string \<Rightarrow> exn \<Rightarrow> json" where
  "hero_image_except str_exn timeout_repr e =
     (case e of
        Timeout \<Rightarrow>
          JObj [(''success'', JBool False),
                (''error'', JStr (''Request timed out after '' @ timeout_repr @ '' seconds''))]
      | HTTPError st txt \<Rightarrow>
          JObj [(''success'', JBool False),
                (''error'', JStr (''HTTP '' @ str_int st)),
                (''details'', JStr (take 500 txt))]
      | other \<Rightarrow>
          JObj [(''success'', JBool False), (''error'', JStr (str_exn e))])"

definition generate_hero_image_from_unedited ::
  "(exn \<Rightarrow> string) \<Rightarrow> string \<Rightarrow> net_outcome \<Rightarrow> net_outcome \<Rightarrow> event list \<times> json" where
  "generate_hero_image_from_unedited str_exn timeout_repr net1 net2 =
     (case hero_image_try net1 net2 of
        (tr, Inl e) \<Rightarrow> (tr, hero_image_except str_exn timeout_repr e)
      | (tr, Inr v) \<Rightarrow> (tr, v))"

text \<open>
  \<open>generate_hero_image_from_unedited_sync\<close> of the same file, documented as the
  same functionality on \<open>requests\<close>: it calls \<open>raise_for_status\<close> after each
  request instead of testing the status, and its \<open>except\<close> clauses return the timeout
  message or \<open>str(e)\<close>.
\<close>

definition hero_image_sync_try ::
  "net_outcome \<Rightarrow> net_outcome \<Rightarrow> event list \<times> (exn + json)" where
  "hero_image_sync_try net1 net2 =
     emit [Post ''/functions/v1/generate-hero-image-prompt'']
       (case net1 of
          NetTimeout \<Rightarrow> ([], Inl Timeout)
        | NetError \<Rightarrow> ([], Inl ConnectionError)
        | Response st1 txt1 js1 \<Rightarrow>
            (case raise_for_status st1 txt1 of
               Some e \<Rightarrow> ([], Inl e)
             | None \<Rightarrow>
                 (case js1 of
                    None \<Rightarrow> ([], Inl JSONDecodeError)
                  | Some prompt_result \<Rightarrow>
                      (case save_status_field prompt_result ''success'' of
                         Inl e \<Rightarrow> ([], Inl e)
                       | Inr saved \<Rightarrow>
                           emit [Post ''/functions/v1/generate-hero-image'']
                             (case net2 of
                                NetTimeout \<Rightarrow> ([], Inl Timeout)
                              | NetError \<Rightarrow> ([], Inl ConnectionError)
                              | Response st2 txt2 js2 \<Rightarrow>
                                  (case raise_for_status st2 txt2 of
                                     Some e \<Rightarrow> ([], Inl e)
                                   | None \<Rightarrow>
                                       (case js2 of
                                          None \<Rightarrow> ([], Inl JSONDecodeError)
                                        | Some image_result \<Rightarrow>
                                            (case py_get image_result ''success'' JNull of
                                               Inl e \<Rightarrow> ([], Inl e)
                                             | Inr ok \<Rightarrow>
                                                 (case py_get image_result ''hero_image_url''
                                                         JNull of
                                                    Inl e \<Rightarrow> ([], Inl e)
                                                  | Inr url \<Rightarrow>
                                                      (case save_status_field prompt_result
                                                              ''hero_image_prompt_id'' of
                                                         Inl e \<Rightarrow> ([], Inl e)
                                                       | Inr prompt_id \<Rightarrow>
                                                           ([], Inr (hero_success prompt_result
                                                                       image_result url
                                                                       prompt_id))))))))))))"

definition generate_hero_image_from_unedited_sync ::
  "(exn \<Rightarrow> string) \<Rightarrow> string \<Rightarrow> net_outcome \<Rightarrow> net_outcome \<Rightarrow> event list \<times> json" where
  "generate_hero_image_from_unedited_sync str_exn timeout_repr net1 net2 =
     (case hero_image_sync_try net1 net2 of
        (tr, Inl Timeout) \<Rightarrow>
          (tr, JObj [(''success'', JBool False),
                     (''error'', JStr (''Request timed out after '' @ timeout_repr @
                                       '' seconds''))])
      | (tr, Inl e) \<Rightarrow> (tr, JObj [(''success'', JBool False), (''error'', JStr (str_exn e))])
      | (tr, Inr v) \<Rightarrow> (tr, v))"

section \<open>Parallel batch\<close>

text \<open>
  The entry \<open>example_batch_parallel\<close> appends for one completed future: the summary
  of the result, or the failure entry when \<open>future.result()\<close> or the construction of
  the summary raises. \<open>str_exn\<close> is \<open>str(e)\<close>.
\<close>

definition batch_summary :: "string \<Rightarrow> json \<Rightarrow> exn + json" where
  "batch_summary task_id result =
     (case py_get result ''success'' JNull of
        Inl e \<Rightarrow> Inl e
      | Inr s \<Rightarrow>
          (case py_get result ''html'' (JStr []) of
             Inl e \<Rightarrow> Inl e
           | Inr h \<Rightarrow>
               (case py_len h of
                  Inl e \<Rightarrow> Inl e
                | Inr n \<Rightarrow>
                    Inr (JObj [(''task_id'', JStr task_id),
                               (''success'', s),
                               (''html_length'', JNum (int n))]))))"

definition batch_entry :: "(exn \<Rightarrow> string) \<Rightarrow> string \<Rightarrow> exn + json \<Rightarrow> json" where
  "batch_entry str_exn task_id outcome =
     (case (case outcome of Inl e \<Rightarrow> Inl e | Inr result \<Rightarrow> batch_summary task_id result) of
        Inl e \<Rightarrow>
          JObj [(''task_id'', JStr task_id),
                (''success'', JBool False),
                (''error'', JStr (str_exn e))]
      | Inr entry \<Rightarrow> entry)"

text \<open>
  The loop over \<open>as_completed(future_to_task)\<close>. A future is the position of its
  task in the submitted list; \<open>future_to_task\<close> is the dict built by the
  comprehension; \<open>order\<close> is the sequence in which the futures complete; \<open>net i\<close>
  is what the request of future \<open>i\<close> produces.
\<close>

fun collect_results ::
  "(exn \<Rightarrow> string) \<Rightarrow> (nat \<Rightarrow> net_outcome) \<Rightarrow> (nat \<times> string) list \<Rightarrow> nat list \<Rightarrow>
   json list \<Rightarrow> exn + json list" where
  "collect_results str_exn net future_to_task [] results = Inr results"
| "collect_results str_exn net future_to_task (future # rest) results =
     (case map_of future_to_task future of
        None \<Rightarrow> Inl KeyError
      | Some task_id \<Rightarrow>
          collect_results str_exn net future_to_task rest
            (results @ [batch_entry str_exn task_id (generate_html (net future))]))"

definition example_batch_parallel ::
  "(exn \<Rightarrow> string) \<Rightarrow> (nat \<Rightarrow> net_outcome) \<Rightarrow> string list \<Rightarrow> nat list \<Rightarrow> exn + json list" where
  "example_batch_parallel str_exn net task_ids order =
     collect_results str_exn net (zip [0..<length task_ids] task_ids) order []"

section \<open>Saving the generated HTML and schema\<close>

text \<open>How a script ends: it runs to its last line, or \<open>exit(n)\<close> stops it.\<close>

datatype ending = Completed | Exited int

text \<open>\<open>f.write(v)\<close> on a text file: only a string can be written.\<close>

definition py_write :: "string \<Rightarrow> json \<Rightarrow> exn + event list" where
  "py_write name v = (case v of JStr s \<Rightarrow> Inr [Write_text name s] | other \<Rightarrow> Inl TypeError)"

text \<open>
  The save block both scripts share: open the HTML file and write
  \<open>result.get('html', '')\<close>; then, when \<open>result.get('schema')\<close> is true, open the
  schema file and dump the schema. Opening for writing creates the file, so the
  \<open>Open_file\<close> event stays when the write raises. The block yields the exception that
  interrupts it, if any.
\<close>

definition save_block :: "string \<Rightarrow> string \<Rightarrow> json \<Rightarrow> event list \<times> exn option" where
  "save_block html_filename schema_filename result =
     emit [Open_file html_filename]
       (case py_get result ''html'' (JStr []) of
          Inl e \<Rightarrow> ([], Some e)
        | Inr html \<Rightarrow>
            (case py_write html_filename html of
               Inl e \<Rightarrow> ([], Some e)
             | Inr written \<Rightarrow>
                 emit written
                   (case py_get result ''schema'' JNull of
                      Inl e \<Rightarrow> ([], Some e)
                    | Inr schema \<Rightarrow>
                        if truthy schema then
                          ([Open_file schema_filename, Dump_json schema_filename schema], None)
                        else ([], None))))"

text \<open>
  call-generate-side-by-side.py from the request on. A status other than 200 exits
  with code 1; before saving, the script prints the length and the first 200
  characters of the HTML; every exception is caught and printed at the end of the
  script.
\<close>

definition call_generate_side_by_side :: "string \<Rightarrow> net_outcome \<Rightarrow> event list \<times> ending" where
  "call_generate_side_by_side task_id out =
     emit [Post ''/functions/v1/generate-side-by-side'']
       (case out of
          NetTimeout \<Rightarrow> ([], Completed)
        | NetError \<Rightarrow> ([], Completed)
        | Response st txt js \<Rightarrow>
            if st \<noteq> 200 then ([], Exited 1)
            else
              (case js of
                 None \<Rightarrow> ([], Completed)
               | Some result \<Rightarrow>
                   (case py_get result ''success'' JNull of
                      Inl e \<Rightarrow> ([], Completed)
                    | Inr s \<Rightarrow>
                        if truthy s then
                          (case py_get result ''html'' (JStr []) of
                             Inl e \<Rightarrow> ([], Completed)
                           | Inr html \<Rightarrow>
                               (case py_len html of
                                  Inl e \<Rightarrow> ([], Completed)
                                | Inr n \<Rightarrow>
                                    (case py_slice html 200 of
                                       Inl e \<Rightarrow> ([], Completed)
                                     | Inr preview \<Rightarrow>
                                         (fst (save_block (''output-'' @ task_id @ ''.html'')
                                                 (''schema-'' @ task_id @ ''.json'') result),
                                          Completed))))
                        else ([], Completed))))"

text \<open>
  The main block of generate-side-by-side-quickstart.py: the file names are the
  literals of the script; all three \<open>except\<close> clauses print and go on.
\<close>

definition quickstart_main :: "string \<Rightarrow> net_outcome \<Rightarrow> event list \<times> ending" where
  "quickstart_main task_id out =
     emit [Post ''/functions/v1/generate-side-by-side'']
       (case quickstart_generate_html out of
          Inl e \<Rightarrow> ([], Completed)
        | Inr result \<Rightarrow>
            (case py_get result ''success'' JNull of
               Inl e \<Rightarrow> ([], Completed)
             | Inr s \<Rightarrow>
                 if truthy s then
                   (fst (save_block ''generated-output.html'' ''generated-schema.json'' result),
                    Completed)
                 else ([], Completed)))"

text \<open>The files a successful save leaves in the trace.\<close>

definition saved_files :: "string \<Rightarrow> string \<Rightarrow> string \<Rightarrow> json \<Rightarrow> event list" where
  "saved_files html_filename schema_filename html schema =
     [Open_file html_filename, Write_text html_filename html] @
     (if truthy schema then [Open_file schema_filename, Dump_json schema_filename schema]
      else [])"

section \<open>Status polling\<close>

text \<open>\<open>v[0]\<close>: the first item of a list or a string; a dict has no key \<open>0\<close>.\<close>

fun py_first :: "json \<Rightarrow> exn + json" where
  "py_first (JArr (x # xs)) = Inr x"
| "py_first (JArr []) = Inl IndexError"
| "py_first (JStr (c # cs)) = Inr (JStr [c])"
| "py_first (JStr []) = Inl IndexError"
| "py_first (JObj d) = Inl KeyError"
| "py_first v = Inl TypeError"

text \<open>
  \<open>check_job_status\<close> of test-content-intake.py and of test-medidrive-content.py:
  one GET on the job table. A 200 response with a non-empty row list returns the
  first row, after printing fields read with \<open>job.get\<close>; everything else, every
  exception included, returns \<open>None\<close>. The two files differ in what they print.
\<close>

definition check_job_status :: "net_outcome \<Rightarrow> json" where
  "check_job_status out =
     (case out of
        NetTimeout \<Rightarrow> JNull
      | NetError \<Rightarrow> JNull
      | Response st txt js \<Rightarrow>
          if st = 200 then
            (case js of
               None \<Rightarrow> JNull
             | Some jobs \<Rightarrow>
                 if truthy jobs then
                   (case py_first jobs of
                      Inl e \<Rightarrow> JNull
                    | Inr job \<Rightarrow>
                        (case py_get job ''status'' JNull of
                           Inl e \<Rightarrow> JNull
                         | Inr status \<Rightarrow> job))
                 else JNull)
          else JNull)"

text \<open>How \<open>monitor_job\<close> ends.\<close>

datatype monitor_result = Finished | Expired | Raised exn

text \<open>
  \<open>monitor_job\<close> of test-content-intake.py. The wall clock belongs to the
  environment: \<open>elapsed k\<close> is the value of \<open>time.time() - start_time\<close> at the
  \<open>k\<close>-th evaluation of the loop condition and \<open>fetch k\<close> is what the request of
  the \<open>k\<close>-th poll produces, both counted from 0. The loop need not end, so the
  function is partial. An interrupt by the operator is not part of the model.
\<close>

partial_function (option) monitor_loop ::
  "int \<Rightarrow> (nat \<Rightarrow> net_outcome) \<Rightarrow> (nat \<Rightarrow> int) \<Rightarrow> int \<Rightarrow> int \<Rightarrow> nat \<Rightarrow> event list \<Rightarrow>
   (event list \<times> monitor_result) option" where
  "monitor_loop os_limit fetch elapsed duration interval k tr =
     (if elapsed k < duration then
        (let job = check_job_status (fetch k);
             tr1 = tr @ [Get ''/rest/v1/content_jobs'']
         in case (if truthy job then py_get job ''status'' JNull else Inr JNull) of
              Inl e \<Rightarrow> Some (tr1, Raised e)
            | Inr status \<Rightarrow>
                if truthy job \<and> status \<in> set [JStr ''completed'', JStr ''failed''] then
                  Some (tr1 @ [Get ''/rest/v1/content_job_events''], Finished)
                else
                  (case pause os_limit interval of
                     Inl e \<Rightarrow> Some (tr1, Raised e)
                   | Inr slept \<Rightarrow>
                       monitor_loop os_limit fetch elapsed duration interval (Suc k) (tr1 @ slept)))
      else Some (tr, Expired))"

definition monitor_job ::
  "int \<Rightarrow> (nat \<Rightarrow> net_outcome) \<Rightarrow> (nat \<Rightarrow> int) \<Rightarrow> int \<Rightarrow> int \<Rightarrow> (event list \<times> monitor_result) option" where
  "monitor_job os_limit fetch elapsed duration interval =
     monitor_loop os_limit fetch elapsed duration interval 0 []"

text \<open>
  \<open>monitor_job\<close> of test-medidrive-content.py: it also remembers the last
  \<open>status:stage\<close> text and fetches the stage rows and the events when the text
  changes and when the job is finished. \<open>fmt\<close> is the rendering of a value inside
  the f-string. \<open>check_stage_progress\<close> and \<open>check_events\<close> catch every exception.
\<close>

partial_function (option) medidrive_monitor_loop ::
  "int \<Rightarrow> (json \<Rightarrow> string) \<Rightarrow> (nat \<Rightarrow> net_outcome) \<Rightarrow> (nat \<Rightarrow> int) \<Rightarrow> int \<Rightarrow> int \<Rightarrow> nat \<Rightarrow>
   string option \<Rightarrow> event list \<Rightarrow> (event list \<times> monitor_result) option" where
  "medidrive_monitor_loop os_limit fmt fetch elapsed duration interval k last_status tr =
     (if elapsed k < duration then
        (let job = check_job_status (fetch k);
             tr1 = tr @ [Get ''/rest/v1/content_jobs'']
         in if truthy job then
              (case py_get job ''status'' JNull of
                 Inl e \<Rightarrow> Some (tr1, Raised e)
               | Inr status \<Rightarrow>
                   (case py_get job ''stage'' JNull of
                      Inl e \<Rightarrow> Some (tr1, Raised e)
                    | Inr stage \<Rightarrow>
                        (let current_status = fmt status @ '':'' @ fmt stage;
                             changed = (Some current_status \<noteq> last_status);
                             tr2 = (if changed then
                                      tr1 @ [Get ''/rest/v1/content_job_stages'',
                                             Get ''/rest/v1/content_job_events'']
                                    else tr1);
                             last_status' = (if changed then Some current_status
                                             else last_status)
                         in if status \<in> set [JStr ''completed'', JStr ''failed''] then
                              Some (tr2 @ [Get ''/rest/v1/content_job_stages'',
                                           Get ''/rest/v1/content_job_events''], Finished)
                            else
                              (case pause os_limit interval of
                                 Inl e \<Rightarrow> Some (tr2, Raised e)
                               | Inr slept \<Rightarrow>
                                   medidrive_monitor_loop os_limit fmt fetch elapsed duration interval
                                     (Suc k) last_status' (tr2 @ slept)))))
            else
              (case pause os_limit interval of
                 Inl e \<Rightarrow> Some (tr1, Raised e)
               | Inr slept \<Rightarrow>
                   medidrive_monitor_loop os_limit fmt fetch elapsed duration interval
                     (Suc k) last_status (tr1 @ slept)))
      else Some (tr, Expired))"

definition medidrive_monitor_job ::
  "int \<Rightarrow> (json \<Rightarrow> string) \<Rightarrow> (nat \<Rightarrow> net_outcome) \<Rightarrow> (nat \<Rightarrow> int) \<Rightarrow> int \<Rightarrow> int \<Rightarrow>
   (event list \<times> monitor_result) option" where
  "medidrive_monitor_job os_limit fmt fetch elapsed duration interval =
     medidrive_monitor_loop os_limit fmt fetch elapsed duration interval 0 None []"

text \<open>
  A fetched row is terminal when it is a non-empty row whose status is
  \<open>completed\<close> or \<open>failed\<close>. \<open>polls\<close> and \<open>sleeps\<close> count the status requests and
  the sleeps of a trace.
\<close>

definition terminal_row :: "json \<Rightarrow> bool" where
  "terminal_row job =
     (truthy job \<and> py_get job ''status'' JNull \<in> set [Inr (JStr ''completed''), Inr (JStr ''failed'')])"

definition polls :: "event list \<Rightarrow> nat" where
  "polls tr = length (filter (\<lambda>e. e = Get ''/rest/v1/content_jobs'') tr)"

fun is_sleep :: "event \<Rightarrow> bool" where
  "is_sleep (Sleep d) = True"
| "is_sleep e = False"

definition sleeps :: "event list \<Rightarrow> nat" where
  "sleeps tr = length (filter is_sleep tr)"

section \<open>Generation with polling\<close>

definition polling_timeout :: json where
  "polling_timeout = JObj [(''success'', JBool False), (''error'', JStr ''Polling timeout'')]"

text \<open>
  The \<open>while\<close> loop of \<open>GenerateSideBySide.generate_with_polling\<close>: its body only
  sleeps. \<open>elapsed k\<close> is the value of \<open>time.time() - start_time\<close> at the \<open>k\<close>-th
  evaluation of the loop condition.
\<close>

partial_function (option) polling_loop ::
  "int \<Rightarrow> (nat \<Rightarrow> int) \<Rightarrow> int \<Rightarrow> int \<Rightarrow> nat \<Rightarrow> event list \<Rightarrow> (event list \<times> (exn + json)) option" where
  "polling_loop os_limit elapsed max_wait poll_interval k tr =
     (if elapsed k < max_wait then
        (case pause os_limit poll_interval of
           Inl e \<Rightarrow> Some (tr, Inl e)
         | Inr slept \<Rightarrow> polling_loop os_limit elapsed max_wait poll_interval (Suc k) (tr @ slept))
      else Some (tr, Inr polling_timeout))"

text \<open>
  \<open>generate_with_polling\<close>: the request that starts the job catches a timeout only,
  and its response is not looked at.
\<close>

definition generate_with_polling ::
  "int \<Rightarrow> net_outcome \<Rightarrow> (nat \<Rightarrow> int) \<Rightarrow> int \<Rightarrow> int \<Rightarrow> (event list \<times> (exn + json)) option" where
  "generate_with_polling os_limit kickoff elapsed max_wait poll_interval =
     (case kickoff of
        NetError \<Rightarrow> Some ([Post ''/functions/v1/generate-side-by-side''], Inl ConnectionError)
      | NetTimeout \<Rightarrow>
          polling_loop os_limit elapsed max_wait poll_interval 0
            [Post ''/functions/v1/generate-side-by-side'']
      | Response st txt js \<Rightarrow>
          polling_loop os_limit elapsed max_wait poll_interval 0
            [Post ''/functions/v1/generate-side-by-side''])"

section \<open>Theorems\<close>

subsection \<open>Non-2xx responses\<close>

text \<open>
  C1 (as the code has it). A response with a client or server error status makes both
  \<open>generate_html\<close> functions raise \<open>HTTPError\<close> carrying the status code, and the
  exception leaves the function; no failure value is returned. \<open>test_schema_perfect\<close>
  returns \<open>None\<close> for every status other than 200 and raises nothing.
\<close>

theorem non_2xx_handling:
  "(400 \<le> st \<and> st < 600 \<longrightarrow>
      generate_html (Response st txt js) = Inl (HTTPError st txt)
      \<and> quickstart_generate_html (Response st txt js) = Inl (HTTPError st txt))
   \<and> (st \<noteq> 200 \<longrightarrow> test_schema_perfect loads (StreamResponse st ls failure) = JNull)"
  by (simp add: generate_html_def quickstart_generate_html_def raise_for_status_def
      test_schema_perfect_def)

theorem non_2xx_handling_witness:
  "generate_html (Response 404 ''not found'' None) = Inl (HTTPError 404 ''not found'')
   \<and> quickstart_generate_html (Response 404 ''not found'' None) = Inl (HTTPError 404 ''not found'')
   \<and> test_schema_perfect (\<lambda>s. None) (StreamResponse 404 [''not found''] None) = JNull"
  using non_2xx_handling [of 404 "''not found''" None "\<lambda>s. None" "[''not found'']" None]
  by simp

text \<open>
  C1 as stated fails: on a 500 response \<open>generate_html\<close> returns no value; the
  \<open>HTTPError\<close> raised by \<open>raise_for_status\<close> is re-raised to the caller.
\<close>

theorem generate_html_raises_counterexample:
  "generate_html (Response 500 ''Internal Server Error'' None) =
     Inl (HTTPError 500 ''Internal Server Error'')"
  by (simp add: generate_html_def raise_for_status_def)

subsection \<open>Removal of the tagged blocks\<close>

lemma straddle:
  assumes "prefix (a # t) (xs @ a # zs)" "a \<notin> set t" "xs \<noteq> []"
  shows "prefix (a # t) xs"
proof -
  from assms(1) consider "prefix (a # t) xs" | us where "a # t = xs @ us" "prefix us (a # zs)"
    by (auto simp: prefix_append)
  then show ?thesis
  proof cases
    case 1 then show ?thesis .
  next
    case 2
    show ?thesis
    proof (cases us)
      case Nil with 2 show ?thesis by simp
    next
      case (Cons u us')
      with 2 have "u = a" by simp
      with 2 Cons assms(2,3) show ?thesis by (cases xs) auto
    qed
  qed
qed

lemma skip_to_step: "\<not> prefix cl (c # cs) \<Longrightarrow> skip_to cl (c # cs) = skip_to cl cs"
  by simp

lemma skip_to_here: "skip_to cl (cl @ rest) = Some rest"
proof (cases "cl @ rest")
  case Nil
  then show ?thesis by simp
next
  case (Cons a list)
  have p: "prefix cl (a # list)" unfolding Cons [symmetric] by simp
  have d: "drop (length cl) (a # list) = rest" unfolding Cons [symmetric] by simp
  show ?thesis unfolding Cons using p d by (simp del: Cons_prefix_Cons prefix_Cons)
qed

lemma re_sub_block_step:
  "\<not> prefix opn (c # cs) \<Longrightarrow> re_sub_block opn cl (c # cs) = c # re_sub_block opn cl cs"
  by simp

lemma re_sub_block_match:
  "opn \<noteq> [] \<Longrightarrow> skip_to cl rest' = Some rest \<Longrightarrow>
   re_sub_block opn cl (opn @ rest') = re_sub_block opn cl rest"
  by (cases opn) auto

lemma skip_to_found:
  assumes "a \<notin> set t" "\<not> sublist (a # t) xs"
  shows "skip_to (a # t) (xs @ (a # t) @ rest) = Some rest"
  using assms(2)
proof (induction xs)
  case Nil
  show ?case using skip_to_here [of "a # t" rest] by simp
next
  case (Cons c cs)
  have "\<not> prefix (a # t) (c # cs)" using Cons.prems by (simp add: sublist_Cons_right)
  then have np: "\<not> prefix (a # t) (c # (cs @ (a # t) @ rest))"
    using straddle [of a t "c # cs" "t @ rest", OF _ assms(1)] by auto
  have "\<not> sublist (a # t) cs" using Cons.prems by (simp add: sublist_Cons_right)
  then have "skip_to (a # t) (cs @ (a # t) @ rest) = Some rest" by (rule Cons.IH)
  then show ?case using skip_to_step [OF np] by simp
qed

lemma re_sub_block_pass:
  assumes "a \<notin> set t" "\<not> sublist (a # t) xs"
  shows "re_sub_block (a # t) cl (xs @ a # zs) = xs @ re_sub_block (a # t) cl (a # zs)"
  using assms(2)
proof (induction xs)
  case Nil then show ?case by simp
next
  case (Cons c cs)
  have "\<not> prefix (a # t) (c # cs)" using Cons.prems by (simp add: sublist_Cons_right)
  then have np: "\<not> prefix (a # t) (c # (cs @ a # zs))"
    using straddle [of a t "c # cs" zs, OF _ assms(1)] by auto
  have "\<not> sublist (a # t) cs" using Cons.prems by (simp add: sublist_Cons_right)
  then have "re_sub_block (a # t) cl (cs @ a # zs) = cs @ re_sub_block (a # t) cl (a # zs)"
    by (rule Cons.IH)
  then show ?case using re_sub_block_step [OF np, of cl] by simp
qed

lemma re_sub_block_skip:
  assumes "\<forall>c\<in>set xs. c \<noteq> a"
  shows "re_sub_block (a # t) cl (xs @ ys) = xs @ re_sub_block (a # t) cl ys"
  using assms by (induction xs) auto

lemma re_sub_block_remove:
  assumes "opn \<noteq> []" "a \<notin> set t" "\<not> sublist (a # t) xs"
  shows "re_sub_block opn (a # t) (opn @ xs @ (a # t) @ rest) = re_sub_block opn (a # t) rest"
  using re_sub_block_match [OF assms(1) skip_to_found [OF assms(2,3)]] .

lemma is_space_not_lt: "is_space c \<Longrightarrow> c \<noteq> CHR ''<''"
  by (auto simp: is_space_def)

lemma first_pass_segment:
  assumes "well_formed s"
  shows "re_sub_block ''<processing>'' ''</processing>'' (render s @ rest) =
         (if survives_first s then render s else []) @
         re_sub_block ''<processing>'' ''</processing>'' rest"
proof (cases s)
  case (Processing c)
  then show ?thesis
    using assms re_sub_block_remove [of "''<processing>''" "CHR ''<''" "''/processing>''" c rest]
    by simp
next
  case (Think c)
  have "re_sub_block ''<processing>'' ''</processing>'' (c @ CHR ''<'' # ''/think>'' @ rest)
        = c @ re_sub_block ''<processing>'' ''</processing>'' (CHR ''<'' # ''/think>'' @ rest)"
    using assms Think re_sub_block_pass [of "CHR ''<''" "''processing>''" c _ "''/think>'' @ rest"]
    by simp
  then show ?thesis using Think by simp
next
  case (Gap w)
  then show ?thesis
    using assms re_sub_block_skip [of w "CHR ''<''" "''processing>''" _ rest]
    by (auto simp: list_all_iff dest: is_space_not_lt)
qed

lemma first_pass:
  "list_all well_formed segs \<Longrightarrow>
   re_sub_block ''<processing>'' ''</processing>'' (concat (map render segs) @ body) =
   concat (map render (filter survives_first segs)) @
   re_sub_block ''<processing>'' ''</processing>'' body"
  by (induction segs) (simp_all add: first_pass_segment)

lemma second_pass_segment:
  assumes "well_formed s" "survives_first s"
  shows "re_sub_block ''<think>'' ''</think>'' (render s @ rest) =
         gap_text s @ re_sub_block ''<think>'' ''</think>'' rest"
proof (cases s)
  case (Processing c)
  then show ?thesis using assms by simp
next
  case (Think c)
  then show ?thesis
    using assms re_sub_block_remove [of "''<think>''" "CHR ''<''" "''/think>''" c rest]
    by simp
next
  case (Gap w)
  then show ?thesis
    using assms re_sub_block_skip [of w "CHR ''<''" "''think>''" _ rest]
    by (auto simp: list_all_iff dest: is_space_not_lt)
qed

lemma gap_text_removed: "\<not> survives_first s \<Longrightarrow> gap_text s = []"
  by (cases s) auto

lemma second_pass:
  "list_all well_formed segs \<Longrightarrow>
   re_sub_block ''<think>'' ''</think>'' (concat (map render (filter survives_first segs)) @ x) =
   concat (map gap_text segs) @ re_sub_block ''<think>'' ''</think>'' x"
proof (induction segs)
  case Nil then show ?case by simp
next
  case (Cons s segs)
  then have wf: "well_formed s" and IH:
    "re_sub_block ''<think>'' ''</think>'' (concat (map render (filter survives_first segs)) @ x) =
     concat (map gap_text segs) @ re_sub_block ''<think>'' ''</think>'' x"
    by simp_all
  show ?case
  proof (cases "survives_first s")
    case True
    then show ?thesis
      using second_pass_segment [OF wf True, of "concat (map render (filter survives_first segs)) @ x"] IH
      by simp
  next
    case False
    then show ?thesis using IH gap_text_removed [OF False] by simp
  qed
qed

lemma gap_text_space:
  "list_all well_formed segs \<Longrightarrow> c \<in> set (concat (map gap_text segs)) \<Longrightarrow> is_space c"
proof (induction segs)
  case Nil then show ?case by simp
next
  case (Cons s segs)
  then show ?case by (cases s) (auto simp: list_all_iff)
qed

lemma cleaned_text_blocks:
  assumes "list_all well_formed segs"
  shows "cleaned_text (concat (map render segs) @ body) = cleaned_text body"
proof -
  let ?x = "re_sub_block ''<think>'' ''</think>'' (re_sub_block ''<processing>'' ''</processing>'' body)"
  have "dropWhile is_space (concat (map gap_text segs) @ ?x) = dropWhile is_space ?x"
    by (rule dropWhile_append2) (rule gap_text_space [OF assms])
  then show ?thesis
    by (simp only: cleaned_text_def first_pass [OF assms] second_pass [OF assms] py_strip_def)
qed


text \<open>
  C2 (as the code has it). When the text in front of the JSON body consists of
  well-formed blocks and whitespace, the function returns what it returns for the
  body alone, whatever the number of blocks and whatever they contain.
\<close>

theorem schema_blocks_ignored:
  assumes "list_all well_formed segs"
    and "full_response ls = concat (map render segs) @ full_response ls'"
  shows "test_schema_perfect loads (StreamResponse st ls None) =
         test_schema_perfect loads (StreamResponse st ls' None)"
  using cleaned_text_blocks [OF assms(1), of "full_response ls'"] assms(2)
  by (simp add: test_schema_perfect_def)

theorem schema_blocks_ignored_witness:
  \<open>list_all well_formed [Think ''garbage{not json}'']
   \<and> full_response [''<think>garbage{not json}</think>{"@type":"Article"}''] =
       concat (map render [Think ''garbage{not json}'']) @ full_response [''{"@type":"Article"}'']
   \<and> test_schema_perfect
        (\<lambda>s. if s = ''{"@type":"Article"}'' then Some (JObj [(''@type'', JStr ''Article'')])
             else None)
        (StreamResponse 200 [''<think>garbage{not json}</think>{"@type":"Article"}''] None) =
       JObj [(''@type'', JStr ''Article'')]\<close>
proof -
  have h1: "list_all well_formed [Think ''garbage{not json}'']"
    by code_simp
  have h2: \<open>full_response [''<think>garbage{not json}</think>{"@type":"Article"}''] =
       concat (map render [Think ''garbage{not json}'']) @ full_response [''{"@type":"Article"}'']\<close>
    by (simp add: full_response_def)
  have h3: \<open>test_schema_perfect
        (\<lambda>s. if s = ''{"@type":"Article"}'' then Some (JObj [(''@type'', JStr ''Article'')])
             else None)
        (StreamResponse 200 [''{"@type":"Article"}''] None) =
       JObj [(''@type'', JStr ''Article'')]\<close>
    by (simp add: test_schema_perfect_def full_response_def cleaned_text_def py_strip_def
        is_space_def schema_report_def)
  show ?thesis
    using h1 h2 h3 schema_blocks_ignored [OF h1 h2] by simp
qed

text \<open>
  C2 as stated fails: the content of a \<open><think>\<close> block can change the result. Here the
  first substitution removes the text from the \<open><processing>\<close> inside the block to the
  end of the next block, the closing \<open></think>\<close> with it, and what reaches
  \<open>json.loads\<close> is not the JSON body.
\<close>

theorem think_content_counterexample:
  \<open>cleaned_text (full_response
     [''<think>garbage<processing>{not json}</think><processing>step</processing>{"@type":"Article"}''])
   = ''<think>garbage{"@type":"Article"}''\<close>
  by (simp add: cleaned_text_def full_response_def py_strip_def is_space_def)

subsection \<open>Job submission\<close>

text \<open>
  C4 (as the code has it). \<open>submit_job\<close> issues exactly one POST. Status 200 and
  status 202 are treated alike. With a JSON object as reply the function returns the
  reply's \<open>job_id\<close> (\<open>None\<close> when the key is absent). With a reply that is not
  JSON, with every other status, with a timeout and with any other transport failure
  it returns \<open>None\<close>, and no second request is made.
\<close>

theorem submit_job_contract:
  "fst (submit_job out) = [Post ''/functions/v1/content-intake'']
   \<and> submit_job (Response 202 txt js) = submit_job (Response 200 txt js)
   \<and> submit_job (Response 200 txt (Some (JObj d))) =
       ([Post ''/functions/v1/content-intake''],
        Inr (case map_of d ''job_id'' of None \<Rightarrow> JNull | Some v \<Rightarrow> v))
   \<and> submit_job (Response 200 txt None) = ([Post ''/functions/v1/content-intake''], Inr JNull)
   \<and> (st \<noteq> 200 \<and> st \<noteq> 202 \<longrightarrow>
        submit_job (Response st txt js) = ([Post ''/functions/v1/content-intake''], Inr JNull))
   \<and> submit_job NetTimeout = ([Post ''/functions/v1/content-intake''], Inr JNull)
   \<and> submit_job NetError = ([Post ''/functions/v1/content-intake''], Inr JNull)"
  by (simp add: submit_job_def submit_job_body_def)

theorem submit_job_contract_witness:
  "submit_job (Response 202 ''{}'' (Some (JObj [(''job_id'', JStr ''j1'')]))) =
     ([Post ''/functions/v1/content-intake''], Inr (JStr ''j1''))
   \<and> submit_job (Response 500 ''{}'' (Some (JObj [(''job_id'', JStr ''j1'')]))) =
     ([Post ''/functions/v1/content-intake''], Inr JNull)"
  using submit_job_contract [of "Response 500 ''boom'' None" "''{}''"
      "Some (JObj [(''job_id'', JStr ''j1'')])" "[(''job_id'', JStr ''j1'')]" 500]
  by simp

text \<open>
  C4 as stated fails: a 200 reply whose JSON document is a list has no \<open>get\<close>; the
  \<open>AttributeError\<close> is not a \<open>RequestException\<close> and leaves \<open>submit_job\<close>, which
  returns neither a job id nor \<open>None\<close>.
\<close>

theorem submit_job_list_reply_counterexample:
  "submit_job (Response 200 ''[1]'' (Some (JArr [JNum 1]))) =
     ([Post ''/functions/v1/content-intake''], Inl AttributeError)"
  by (simp add: submit_job_def submit_job_body_def)

subsection \<open>Retry helper\<close>

lemma emit_emit: "emit xs (emit ys p) = emit (xs @ ys) p"
  by (cases p) simp

lemma retry_loop_ok:
  "attempt_ok (net a) \<Longrightarrow>
   retry_loop os_limit net m d (a # rest) =
     ([Post ''/functions/v1/generate-side-by-side''], generate_html (net a))"
  by (auto simp: attempt_ok_def split: sum.splits)

lemma retry_loop_fail_more:
  "\<not> attempt_ok (net a) \<Longrightarrow> a < m \<Longrightarrow> sleep_accepts os_limit d \<Longrightarrow>
   retry_loop os_limit net m d (a # rest) = emit (round_trace d) (retry_loop os_limit net m d rest)"
  by (auto simp: attempt_ok_def pause_def sleep_accepts_def round_trace_def emit_emit Let_def
      split: sum.splits)

lemma retry_loop_fail_last:
  "\<not> attempt_ok (net a) \<Longrightarrow> \<not> a < m \<Longrightarrow>
   retry_loop os_limit net m d (a # rest) =
     emit [Post ''/functions/v1/generate-side-by-side''] (retry_loop os_limit net m d rest)"
  by (auto simp: attempt_ok_def Let_def split: sum.splits)

lemma retry_first_success:
  assumes "sleep_accepts os_limit d" "attempt_ok (net k)" "k \<le> m"
  shows "lo \<le> k \<Longrightarrow> (\<And>j. lo \<le> j \<Longrightarrow> j < k \<Longrightarrow> \<not> attempt_ok (net j)) \<Longrightarrow>
         retry_loop os_limit net m d [lo..m] =
           (concat (replicate (nat (k - lo)) (round_trace d)) @
              [Post ''/functions/v1/generate-side-by-side''],
            generate_html (net k))"
proof (induction "nat (k - lo)" arbitrary: lo)
  case 0
  then have "lo = k" by simp
  then show ?case using assms retry_loop_ok [of net k os_limit m d "[k+1..m]"]
    by (simp add: upto_rec1 del: retry_loop.simps(2))
next
  case (Suc n)
  then have lt: "lo < k" and n: "n = nat (k - (lo + 1))" by linarith+
  have nok: "\<not> attempt_ok (net lo)" using Suc.prems lt by simp
  have rec: "retry_loop os_limit net m d [lo + 1..m] =
           (concat (replicate (nat (k - (lo + 1))) (round_trace d)) @
              [Post ''/functions/v1/generate-side-by-side''],
            generate_html (net k))"
    using Suc.hyps(1) [OF n] Suc.prems lt by simp
  have "[lo..m] = lo # [lo + 1..m]" using lt assms(3) by (simp add: upto_rec1)
  moreover have "nat (k - lo) = Suc (nat (k - (lo + 1)))" using lt by linarith
  ultimately show ?case
    using retry_loop_fail_more [of net lo m os_limit d "[lo + 1..m]"] nok assms(1) lt assms(3) rec
    by (simp del: retry_loop.simps(2))
qed

lemma retry_all_fail:
  "sleep_accepts os_limit d \<Longrightarrow> lo \<le> m \<Longrightarrow>
   (\<And>j. lo \<le> j \<Longrightarrow> j \<le> m \<Longrightarrow> \<not> attempt_ok (net j)) \<Longrightarrow>
   retry_loop os_limit net m d [lo..m] =
     (concat (replicate (nat (m - lo)) (round_trace d)) @
        [Post ''/functions/v1/generate-side-by-side''],
      Inr (failed_after m))"
proof (induction "nat (m - lo)" arbitrary: lo)
  case 0
  then have "lo = m" by simp
  then show ?case using 0 retry_loop_fail_last [of net m m os_limit d "[]"]
    by (simp add: upto_rec1 del: retry_loop.simps(2))
next
  case (Suc n)
  then have lt: "lo < m" and n: "n = nat (m - (lo + 1))" by linarith+
  have nok: "\<not> attempt_ok (net lo)" using Suc.prems lt by simp
  have rec: "retry_loop os_limit net m d [lo + 1..m] =
     (concat (replicate (nat (m - (lo + 1))) (round_trace d)) @
        [Post ''/functions/v1/generate-side-by-side''],
      Inr (failed_after m))"
    using Suc.hyps(1) [OF n] Suc.prems lt by simp
  have "[lo..m] = lo # [lo + 1..m]" using lt by (simp add: upto_rec1)
  moreover have "nat (m - lo) = Suc (nat (m - (lo + 1)))" using lt by linarith
  ultimately show ?case
    using retry_loop_fail_more [of net lo m os_limit d "[lo + 1..m]"] nok lt Suc.prems(1) rec
    by (simp del: retry_loop.simps(2))
qed

text \<open>
  C3 (as the code has it). With at least one attempt allowed and a delay that
  \<open>time.sleep\<close> accepts: when attempt \<open>k\<close> is the first that succeeds, the helper
  returns that attempt's result after exactly \<open>k\<close> requests and \<open>k - 1\<close> sleeps, the
  last event being the request of attempt \<open>k\<close>; when no attempt succeeds it makes
  exactly \<open>max_retries\<close> requests, sleeps between them and not after the last, and
  returns the dict whose \<open>success\<close> is \<open>False\<close> and whose \<open>error\<close> names the number
  of attempts.
\<close>

theorem generate_with_retry_attempts:
  assumes "1 \<le> max_retries" "sleep_accepts os_limit retry_delay"
  shows "(1 \<le> k \<and> k \<le> max_retries \<and> attempt_ok (net k)
           \<and> (\<forall>j. 1 \<le> j \<and> j < k \<longrightarrow> \<not> attempt_ok (net j)) \<longrightarrow>
          generate_with_retry os_limit net max_retries retry_delay =
            (concat (replicate (nat (k - 1))
                       [Post ''/functions/v1/generate-side-by-side'', Sleep retry_delay]) @
               [Post ''/functions/v1/generate-side-by-side''],
             generate_html (net k)))
       \<and> ((\<forall>j. 1 \<le> j \<and> j \<le> max_retries \<longrightarrow> \<not> attempt_ok (net j)) \<longrightarrow>
          generate_with_retry os_limit net max_retries retry_delay =
            (concat (replicate (nat (max_retries - 1))
                       [Post ''/functions/v1/generate-side-by-side'', Sleep retry_delay]) @
               [Post ''/functions/v1/generate-side-by-side''],
             Inr (JObj [(''success'', JBool False),
                        (''error'', JStr (''Failed after '' @ str_int max_retries @
                                          '' attempts''))])))"
  using retry_first_success [of os_limit retry_delay net k max_retries 1]
    retry_all_fail [of os_limit retry_delay 1 max_retries net] assms
  unfolding generate_with_retry_def round_trace_def failed_after_def by blast

theorem generate_with_retry_attempts_witness:
  "generate_with_retry 1000000
     (\<lambda>a. if a = 2 then Response 200 [] (Some (JObj [(''success'', JBool True)])) else NetTimeout)
     3 5 =
     ([Post ''/functions/v1/generate-side-by-side'', Sleep 5,
       Post ''/functions/v1/generate-side-by-side''],
      Inr (JObj [(''success'', JBool True)]))
   \<and> generate_with_retry 1000000
       (\<lambda>a. Response 200 [] (Some (JObj [(''success'', JBool False)]))) 3 5 =
     ([Post ''/functions/v1/generate-side-by-side'', Sleep 5,
       Post ''/functions/v1/generate-side-by-side'', Sleep 5,
       Post ''/functions/v1/generate-side-by-side''],
      Inr (JObj [(''success'', JBool False), (''error'', JStr ''Failed after 3 attempts'')]))"
proof -
  have n3: "str_int 3 = ''3''" by code_simp
  show ?thesis
    using generate_with_retry_attempts [of 3 1000000 5 2
        "\<lambda>a. if a = 2 then Response 200 [] (Some (JObj [(''success'', JBool True)]))
             else NetTimeout"]
      generate_with_retry_attempts [of 3 1000000 5 2
        "\<lambda>a. Response 200 [] (Some (JObj [(''success'', JBool False)]))"]
    by (simp add: attempt_ok_def generate_html_def raise_for_status_def sleep_accepts_def
        eval_nat_numeral n3)
qed

text \<open>
  C3 as stated fails for a negative delay: the sleep behind the first failed attempt
  raises, first inside the \<open>try\<close> or its handler and then out of the helper, after
  one request and with no result returned.
\<close>

theorem negative_retry_delay_counterexample:
  "generate_with_retry 1000000 (\<lambda>a. NetTimeout) 3 (- 1) =
     ([Post ''/functions/v1/generate-side-by-side''], Inl ValueError)"
  by (simp add: generate_with_retry_def generate_html_def pause_def upto_rec1)

subsection \<open>Hero-image generation\<close>

text \<open>
  The asynchronous function and the helper short-circuit as the contract of the
  hero-image flow says. A first response with a status other than 200 ends the
  sequence: the result is the failure naming the prompt step and the only request
  issued is the first. When the first response is 200 with a prompt result whose save
  status can be read, a second response with a status other than 200 gives the failure
  naming the image step, with the prompt result of the first call under
  \<open>prompt_result\<close>.
\<close>

theorem hero_image_short_circuit:
  "(st1 \<noteq> 200 \<longrightarrow>
      generate_hero_image_from_unedited str_exn timeout_repr (Response st1 txt1 js1) net2 =
        ([Post ''/functions/v1/generate-hero-image-prompt''],
         JObj [(''success'', JBool False),
               (''error'', JStr (''Prompt generation failed: HTTP '' @ str_int st1)),
               (''details'', JStr (take 500 txt1))])
      \<and> generate_hero_image_from_unedited_content (Response st1 txt1 js1) net2 =
        ([Post ''/functions/v1/generate-hero-image-prompt''],
         Inr (JObj [(''success'', JBool False),
                    (''error'', JStr (''Prompt generation failed: HTTP '' @ str_int st1)),
                    (''details'', JStr (take 500 txt1))])))
   \<and> (st2 \<noteq> 200 \<longrightarrow>
      (save_status_field prompt_result ''success'' = Inr saved \<longrightarrow>
         generate_hero_image_from_unedited str_exn timeout_repr
           (Response 200 txt1 (Some prompt_result)) (Response st2 txt2 js2) =
           ([Post ''/functions/v1/generate-hero-image-prompt'',
             Post ''/functions/v1/generate-hero-image''],
            JObj [(''success'', JBool False),
                  (''error'', JStr (''Image generation failed: HTTP '' @ str_int st2)),
                  (''details'', JStr (take 500 txt2)),
                  (''prompt_result'', prompt_result)]))
      \<and> generate_hero_image_from_unedited_content
           (Response 200 txt1 (Some prompt_result)) (Response st2 txt2 js2) =
           ([Post ''/functions/v1/generate-hero-image-prompt'',
             Post ''/functions/v1/generate-hero-image''],
            Inr (JObj [(''success'', JBool False),
                       (''error'', JStr (''Image generation failed: HTTP '' @ str_int st2)),
                       (''details'', JStr (take 500 txt2)),
                       (''prompt_result'', prompt_result)])))"
  by (simp add: generate_hero_image_from_unedited_def hero_image_try_def
      generate_hero_image_from_unedited_content_def prompt_failure_def image_failure_def)

theorem hero_image_short_circuit_witness:
  "generate_hero_image_from_unedited (\<lambda>e. ''error'') ''300.0'' (Response 500 ''down'' None) NetError =
     ([Post ''/functions/v1/generate-hero-image-prompt''],
      JObj [(''success'', JBool False),
            (''error'', JStr ''Prompt generation failed: HTTP 500''),
            (''details'', JStr ''down'')])
   \<and> generate_hero_image_from_unedited (\<lambda>e. ''error'') ''300.0''
       (Response 200 ''{}''
          (Some (JObj [(''save_status'', JObj [(''success'', JBool True)]),
                       (''content_source'', JStr ''unedited'')])))
       (Response 503 ''busy'' None) =
     ([Post ''/functions/v1/generate-hero-image-prompt'',
       Post ''/functions/v1/generate-hero-image''],
      JObj [(''success'', JBool False),
            (''error'', JStr ''Image generation failed: HTTP 503''),
            (''details'', JStr ''busy''),
            (''prompt_result'',
             JObj [(''save_status'', JObj [(''success'', JBool True)]),
                   (''content_source'', JStr ''unedited'')])])"
proof -
  have s: "save_status_field
             (JObj [(''save_status'', JObj [(''success'', JBool True)]),
                    (''content_source'', JStr ''unedited'')]) ''success'' = Inr (JBool True)"
    by (simp add: save_status_field_def)
  have n500: "str_int 500 = ''500''" and n503: "str_int 503 = ''503''"
    by code_simp+
  show ?thesis
    using hero_image_short_circuit [of 500 "\<lambda>e. ''error''" "''300.0''" "''down''" None NetError
        503 "JObj [(''save_status'', JObj [(''success'', JBool True)]),
                   (''content_source'', JStr ''unedited'')]" "JBool True" "''busy''" None]
      hero_image_short_circuit [of 500 "\<lambda>e. ''error''" "''300.0''" "''{}''" None NetError
        503 "JObj [(''save_status'', JObj [(''success'', JBool True)]),
                   (''content_source'', JStr ''unedited'')]" "JBool True" "''busy''" None] s
    by (simp add: n500 n503)
qed

text \<open>
  C6 fails in the synchronous variant of the same file. After a 200 prompt response, a
  500 response to the image request makes \<open>raise_for_status\<close> raise; the handler
  returns only \<open>success\<close> and \<open>str(e)\<close>: the result does not name the image step
  and carries no \<open>prompt_result\<close>, while the asynchronous function returns both at
  the same input.
\<close>

theorem hero_image_sync_drops_prompt_result:
  "generate_hero_image_from_unedited_sync str_exn timeout_repr
     (Response 200 ''{}'' (Some (JObj [(''save_status'', JObj [(''success'', JBool True)])])))
     (Response 500 ''boom'' None) =
     ([Post ''/functions/v1/generate-hero-image-prompt'',
       Post ''/functions/v1/generate-hero-image''],
      JObj [(''success'', JBool False),
            (''error'', JStr (str_exn (HTTPError 500 ''boom'')))])
   \<and> generate_hero_image_from_unedited str_exn timeout_repr
     (Response 200 ''{}'' (Some (JObj [(''save_status'', JObj [(''success'', JBool True)])])))
     (Response 500 ''boom'' None) =
     ([Post ''/functions/v1/generate-hero-image-prompt'',
       Post ''/functions/v1/generate-hero-image''],
      JObj [(''success'', JBool False),
            (''error'', JStr ''Image generation failed: HTTP 500''),
            (''details'', JStr ''boom''),
            (''prompt_result'', JObj [(''save_status'', JObj [(''success'', JBool True)])])])"
proof -
  have n500: "str_int 500 = ''500''"
    by code_simp
  show ?thesis
    by (simp add: generate_hero_image_from_unedited_sync_def hero_image_sync_try_def
        generate_hero_image_from_unedited_def hero_image_try_def raise_for_status_def
        save_status_field_def image_failure_def n500)
qed

subsection \<open>Parallel batch\<close>

lemma batch_entry_task_id:
  "py_get (batch_entry str_exn task_id outcome) ''task_id'' JNull = Inr (JStr task_id)"
  by (auto simp: batch_entry_def batch_summary_def split: sum.splits)

lemma future_lookup:
  "i < length task_ids \<Longrightarrow> map_of (zip [0..<length task_ids] task_ids) i = Some (task_ids ! i)"
  using map_of_zip_nth [of "[0..<length task_ids]" task_ids i] by simp

lemma collect_results_all:
  "\<forall>i\<in>set order. i < length task_ids \<Longrightarrow>
   collect_results str_exn net (zip [0..<length task_ids] task_ids) order results =
     Inr (results @
          map (\<lambda>i. batch_entry str_exn (task_ids ! i) (generate_html (net i))) order)"
  by (induction order arbitrary: results) (simp_all add: future_lookup)

lemma nth_image_mset:
  "image_mset ((!) xs) (mset [0..<length xs]) = mset xs"
proof -
  have "image_mset ((!) xs) (mset [0..<length xs]) = mset (map ((!) xs) [0..<length xs])"
    by simp
  then show ?thesis by (simp only: map_nth)
qed

text \<open>
  C7. Whatever the order in which the futures complete, as long as every submitted
  future completes exactly once, the runner ends with one entry per submitted task:
  as many entries as task IDs, and the task IDs of the entries are the submitted ones,
  each as often as it was submitted.
\<close>

theorem example_batch_parallel_one_each:
  assumes "mset order = mset [0..<length task_ids]"
  shows "\<exists>results.
           example_batch_parallel str_exn net task_ids order = Inr results
           \<and> length results = length task_ids
           \<and> mset (map (\<lambda>entry. py_get entry ''task_id'' JNull) results) =
               mset (map (\<lambda>task_id. Inr (JStr task_id)) task_ids)"
proof -
  let ?results = "map (\<lambda>i. batch_entry str_exn (task_ids ! i) (generate_html (net i))) order"
  have "set order = set [0..<length task_ids]"
    using assms by (rule mset_eq_setD)
  then have bound: "\<forall>i\<in>set order. i < length task_ids" by simp
  have run: "example_batch_parallel str_exn net task_ids order = Inr ?results"
    using collect_results_all [OF bound, of str_exn net "[]"]
    by (simp add: example_batch_parallel_def)
  have len: "length ?results = length task_ids"
    using mset_eq_length [OF assms] by simp
  have "mset (map (\<lambda>entry. py_get entry ''task_id'' JNull) ?results) =
        image_mset (\<lambda>i. Inr (JStr (task_ids ! i))) (mset order)"
    by (simp add: batch_entry_task_id comp_def)
  also have "\<dots> = image_mset (\<lambda>task_id. Inr (JStr task_id))
                     (image_mset ((!) task_ids) (mset [0..<length task_ids]))"
    by (simp add: assms multiset.map_comp comp_def)
  also have "\<dots> = mset (map (\<lambda>task_id. Inr (JStr task_id)) task_ids)"
    by (simp only: nth_image_mset mset_map)
  finally show ?thesis using run len by blast
qed

theorem example_batch_parallel_one_each_witness:
  "mset [2, 0, 1] = mset [0..<length [''task-uuid-1'', ''task-uuid-2'', ''task-uuid-3'']]
   \<and> (\<exists>results.
         example_batch_parallel (\<lambda>e. ''error'')
           (\<lambda>i. if i = 0 then NetTimeout else Response 200 [] (Some (JObj [(''success'', JBool True)])))
           [''task-uuid-1'', ''task-uuid-2'', ''task-uuid-3''] [2, 0, 1] = Inr results
         \<and> length results = 3
         \<and> mset (map (\<lambda>entry. py_get entry ''task_id'' JNull) results) =
             mset [Inr (JStr ''task-uuid-1''), Inr (JStr ''task-uuid-2''),
                   Inr (JStr ''task-uuid-3'')])"
proof -
  have h: "mset [2, 0, 1] = mset [0..<length [''task-uuid-1'', ''task-uuid-2'', ''task-uuid-3'']]"
    by (simp add: upt_rec)
  show ?thesis
    using h example_batch_parallel_one_each [OF h, of "\<lambda>e. ''error''"
        "\<lambda>i. if i = 0 then NetTimeout else Response 200 [] (Some (JObj [(''success'', JBool True)]))"]
    by (simp add: numeral_3_eq_3)
qed

subsection \<open>Saving the generated HTML and schema\<close>

text \<open>
  C8 (as the code has it). When the reply is a 200 response whose result has a true
  \<open>success\<close> and a string as \<open>html\<close> (or no \<open>html\<close>), the HTML is written to a
  file, and the schema is dumped to a second file exactly when the result's \<open>schema\<close>
  is present and true. call-generate-side-by-side.py names the files
  \<open>output-<task id>.html\<close> and \<open>schema-<task id>.json\<close>; the quickstart names them
  \<open>generated-output.html\<close> and \<open>generated-schema.json\<close>.
\<close>

theorem success_saves_files:
  assumes "py_get (JObj d) ''success'' JNull = Inr s" and "truthy s"
    and "py_get (JObj d) ''html'' (JStr []) = Inr (JStr html)"
    and "py_get (JObj d) ''schema'' JNull = Inr schema"
  shows "call_generate_side_by_side task_id (Response 200 txt (Some (JObj d))) =
           (Post ''/functions/v1/generate-side-by-side'' #
              saved_files (''output-'' @ task_id @ ''.html'') (''schema-'' @ task_id @ ''.json'')
                html schema,
            Completed)
         \<and> quickstart_main task_id (Response 200 txt (Some (JObj d))) =
           (Post ''/functions/v1/generate-side-by-side'' #
              saved_files ''generated-output.html'' ''generated-schema.json'' html schema,
            Completed)"
  using assms
  by (simp add: call_generate_side_by_side_def quickstart_main_def quickstart_generate_html_def
      raise_for_status_def save_block_def py_write_def saved_files_def)

theorem success_saves_files_witness:
  "call_generate_side_by_side ''t1''
     (Response 200 [] (Some (JObj [(''success'', JBool True), (''html'', JStr ''<p>hi</p>''),
                                    (''schema'', JObj [(''@type'', JStr ''Article'')])]))) =
     ([Post ''/functions/v1/generate-side-by-side'',
       Open_file ''output-t1.html'', Write_text ''output-t1.html'' ''<p>hi</p>'',
       Open_file ''schema-t1.json'',
       Dump_json ''schema-t1.json'' (JObj [(''@type'', JStr ''Article'')])],
      Completed)
   \<and> quickstart_main ''t1''
     (Response 200 [] (Some (JObj [(''success'', JBool True), (''html'', JStr ''<p>hi</p>''),
                                    (''schema'', JObj [(''@type'', JStr ''Article'')])]))) =
     ([Post ''/functions/v1/generate-side-by-side'',
       Open_file ''generated-output.html'', Write_text ''generated-output.html'' ''<p>hi</p>'',
       Open_file ''generated-schema.json'',
       Dump_json ''generated-schema.json'' (JObj [(''@type'', JStr ''Article'')])],
      Completed)"
  using success_saves_files [of "[(''success'', JBool True), (''html'', JStr ''<p>hi</p>''),
      (''schema'', JObj [(''@type'', JStr ''Article'')])]" "JBool True" "''<p>hi</p>''"
      "JObj [(''@type'', JStr ''Article'')]" "''t1''" "[]"]
  by (simp add: saved_files_def)

text \<open>
  C8 as stated fails: the quickstart saves a successful result under fixed names, and
  the task ID occurs in neither.
\<close>

theorem quickstart_file_names_counterexample:
  "quickstart_main ''your-task-uuid-here''
     (Response 200 [] (Some (JObj [(''success'', JBool True), (''html'', JStr ''<p>hi</p>''),
                                    (''schema'', JObj [(''@type'', JStr ''Article'')])]))) =
     ([Post ''/functions/v1/generate-side-by-side'',
       Open_file ''generated-output.html'', Write_text ''generated-output.html'' ''<p>hi</p>'',
       Open_file ''generated-schema.json'',
       Dump_json ''generated-schema.json'' (JObj [(''@type'', JStr ''Article'')])],
      Completed)
   \<and> \<not> sublist ''your-task-uuid-here'' ''generated-output.html''
   \<and> \<not> sublist ''your-task-uuid-here'' ''generated-schema.json''"
proof -
  have "\<not> sublist ''your-task-uuid-here'' ''generated-output.html''"
    by code_simp
  moreover have "\<not> sublist ''your-task-uuid-here'' ''generated-schema.json''"
    by code_simp
  ultimately show ?thesis
    by (simp add: quickstart_main_def quickstart_generate_html_def raise_for_status_def
        save_block_def py_write_def)
qed

subsection \<open>Status polling\<close>

lemma check_job_status_shape:
  "check_job_status out = JNull \<or> (\<exists>d. check_job_status out = JObj d)"
proof -
  have get: "py_get job ''status'' JNull = Inr v \<Longrightarrow> \<exists>d. job = JObj d" for job v
    by (cases job) auto
  show ?thesis
    by (auto simp: check_job_status_def split: net_outcome.splits option.splits sum.splits
        dest: get)
qed

lemma monitor_loop_expire:
  "duration \<le> elapsed k \<Longrightarrow>
   monitor_loop os_limit fetch elapsed duration interval k tr = Some (tr, Expired)"
  by (subst monitor_loop.simps) simp

lemma monitor_loop_finish:
  assumes "elapsed k < duration" "terminal_row (check_job_status (fetch k))"
  shows "monitor_loop os_limit fetch elapsed duration interval k tr =
           Some (tr @ [Get ''/rest/v1/content_jobs'', Get ''/rest/v1/content_job_events''],
                 Finished)"
  using assms check_job_status_shape [of "fetch k"]
  by (subst monitor_loop.simps) (auto simp: terminal_row_def Let_def)

lemma monitor_loop_continue:
  assumes "elapsed k < duration" "\<not> terminal_row (check_job_status (fetch k))" "sleep_accepts os_limit interval"
  shows "monitor_loop os_limit fetch elapsed duration interval k tr =
           monitor_loop os_limit fetch elapsed duration interval (Suc k)
             (tr @ [Get ''/rest/v1/content_jobs'', Sleep interval])"
  using assms check_job_status_shape [of "fetch k"]
  by (subst monitor_loop.simps) (auto simp: terminal_row_def Let_def pause_def sleep_accepts_def)

lemma rounds_Suc: "concat (replicate k xs) @ xs = concat (replicate (Suc k) xs)"
  by (induction k) simp_all

lemma monitor_loop_run:
  assumes "sleep_accepts os_limit interval"
    and "\<forall>i<k. elapsed i < duration \<and> \<not> terminal_row (check_job_status (fetch i))"
  shows "monitor_loop os_limit fetch elapsed duration interval 0 [] =
           monitor_loop os_limit fetch elapsed duration interval k
             (concat (replicate k [Get ''/rest/v1/content_jobs'', Sleep interval]))"
  using assms(2)
proof (induction k)
  case 0
  show ?case by simp
next
  case (Suc k)
  have "monitor_loop os_limit fetch elapsed duration interval 0 [] =
        monitor_loop os_limit fetch elapsed duration interval k
          (concat (replicate k [Get ''/rest/v1/content_jobs'', Sleep interval]))"
    using Suc by simp
  also have "\<dots> = monitor_loop os_limit fetch elapsed duration interval (Suc k)
          (concat (replicate k [Get ''/rest/v1/content_jobs'', Sleep interval]) @
           [Get ''/rest/v1/content_jobs'', Sleep interval])"
    using Suc.prems assms(1) by (intro monitor_loop_continue) simp_all
  finally show ?case by (simp only: rounds_Suc)
qed

lemma polls_rounds:
  "polls (concat (replicate k [Get ''/rest/v1/content_jobs'', Sleep interval]) @ tr) = k + polls tr"
  by (induction k) (simp_all add: polls_def)

lemma sleeps_rounds:
  "sleeps (concat (replicate k [Get ''/rest/v1/content_jobs'', Sleep interval]) @ tr) = k + sleeps tr"
  by (induction k) (simp_all add: sleeps_def)

lemma medidrive_loop_expire:
  "duration \<le> elapsed k \<Longrightarrow>
   medidrive_monitor_loop os_limit fmt fetch elapsed duration interval k prev tr = Some (tr, Expired)"
  by (subst medidrive_monitor_loop.simps) simp

lemma medidrive_loop_finish:
  assumes "elapsed k < duration" "terminal_row (check_job_status (fetch k))"
  shows "\<exists>tr'. medidrive_monitor_loop os_limit fmt fetch elapsed duration interval k prev tr =
                  Some (tr', Finished)
               \<and> polls tr' = Suc (polls tr) \<and> sleeps tr' = sleeps tr"
  using assms check_job_status_shape [of "fetch k"]
  by (subst medidrive_monitor_loop.simps)
     (auto simp: terminal_row_def Let_def polls_def sleeps_def)

lemma medidrive_loop_continue:
  assumes "elapsed k < duration" "\<not> terminal_row (check_job_status (fetch k))" "sleep_accepts os_limit interval"
  shows "\<exists>prev' tr'. medidrive_monitor_loop os_limit fmt fetch elapsed duration interval k prev tr =
                  medidrive_monitor_loop os_limit fmt fetch elapsed duration interval (Suc k) prev' tr'
               \<and> polls tr' = Suc (polls tr) \<and> sleeps tr' = Suc (sleeps tr)"
proof -
  consider "check_job_status (fetch k) = JNull" | d where "check_job_status (fetch k) = JObj d"
    using check_job_status_shape [of "fetch k"] by blast
  then show ?thesis
  proof cases
    case 1
    have "medidrive_monitor_loop os_limit fmt fetch elapsed duration interval k prev tr =
          medidrive_monitor_loop os_limit fmt fetch elapsed duration interval (Suc k) prev
            (tr @ [Get ''/rest/v1/content_jobs'', Sleep interval])"
      using assms 1 by (subst medidrive_monitor_loop.simps) (simp add: Let_def pause_def sleep_accepts_def)
    moreover have "polls (tr @ [Get ''/rest/v1/content_jobs'', Sleep interval]) = Suc (polls tr)"
      and "sleeps (tr @ [Get ''/rest/v1/content_jobs'', Sleep interval]) = Suc (sleeps tr)"
      by (simp_all add: polls_def sleeps_def)
    ultimately show ?thesis by blast
  next
    case 2
    show ?thesis
    proof (cases "d = []")
      case True
      have "medidrive_monitor_loop os_limit fmt fetch elapsed duration interval k prev tr =
            medidrive_monitor_loop os_limit fmt fetch elapsed duration interval (Suc k) prev
              (tr @ [Get ''/rest/v1/content_jobs'', Sleep interval])"
        using assms 2 True
        by (subst medidrive_monitor_loop.simps) (simp add: Let_def pause_def sleep_accepts_def)
      moreover have "polls (tr @ [Get ''/rest/v1/content_jobs'', Sleep interval]) = Suc (polls tr)"
        and "sleeps (tr @ [Get ''/rest/v1/content_jobs'', Sleep interval]) = Suc (sleeps tr)"
        by (simp_all add: polls_def sleeps_def)
      ultimately show ?thesis by blast
    next
      case False
      define status where "status = (case map_of d ''status'' of None \<Rightarrow> JNull | Some v \<Rightarrow> v)"
      define stage where "stage = (case map_of d ''stage'' of None \<Rightarrow> JNull | Some v \<Rightarrow> v)"
      define changed where "changed = (Some (fmt status @ '':'' @ fmt stage) \<noteq> prev)"
      define shown where "shown =
        (if changed then [Get ''/rest/v1/content_job_stages'', Get ''/rest/v1/content_job_events'']
         else [])"
      define prev' where "prev' = (if changed then Some (fmt status @ '':'' @ fmt stage) else prev)"
      have nt: "status \<noteq> JStr ''completed''" "status \<noteq> JStr ''failed''"
        using assms(2) 2 False by (auto simp: terminal_row_def status_def)
      have "medidrive_monitor_loop os_limit fmt fetch elapsed duration interval k prev tr =
            medidrive_monitor_loop os_limit fmt fetch elapsed duration interval (Suc k) prev'
              (tr @ Get ''/rest/v1/content_jobs'' # shown @ [Sleep interval])"
        using assms(1,3) 2 False nt
        by (subst medidrive_monitor_loop.simps)
           (simp add: Let_def pause_def sleep_accepts_def status_def stage_def changed_def shown_def prev'_def)
      moreover have "polls (tr @ Get ''/rest/v1/content_jobs'' # shown @ [Sleep interval]) =
                     Suc (polls tr)"
        and "sleeps (tr @ Get ''/rest/v1/content_jobs'' # shown @ [Sleep interval]) =
                     Suc (sleeps tr)"
        by (simp_all add: polls_def sleeps_def shown_def)
      ultimately show ?thesis by blast
    qed
  qed
qed

lemma medidrive_loop_run:
  assumes "sleep_accepts os_limit interval"
    and "\<forall>i<k. elapsed i < duration \<and> \<not> terminal_row (check_job_status (fetch i))"
  shows "\<exists>prev tr. medidrive_monitor_loop os_limit fmt fetch elapsed duration interval 0 None [] =
                   medidrive_monitor_loop os_limit fmt fetch elapsed duration interval k prev tr
                 \<and> polls tr = k \<and> sleeps tr = k"
  using assms(2)
proof (induction k)
  case 0
  show ?case by (intro exI [of _ None] exI [of _ "[]"]) (simp add: polls_def sleeps_def)
next
  case (Suc k)
  then obtain prev tr where run:
    "medidrive_monitor_loop os_limit fmt fetch elapsed duration interval 0 None [] =
     medidrive_monitor_loop os_limit fmt fetch elapsed duration interval k prev tr"
    "polls tr = k" "sleeps tr = k"
    by auto
  have "elapsed k < duration" "\<not> terminal_row (check_job_status (fetch k))"
    using Suc.prems by simp_all
  from medidrive_loop_continue [of elapsed k duration fetch os_limit interval fmt prev tr] this assms(1) run
  show ?case by metis
qed

lemma monitor_loop_early:
  assumes "monitor_loop os_limit fetch elapsed duration interval k tr = Some y"
  shows "sleep_accepts os_limit interval \<longrightarrow>
         snd y = Expired \<or>
         (snd y = Finished \<and>
          (\<exists>j. k \<le> j \<and> polls (fst y) = polls tr + Suc (j - k)
               \<and> terminal_row (check_job_status (fetch j))
               \<and> (\<forall>i. k \<le> i \<and> i < j \<longrightarrow> \<not> terminal_row (check_job_status (fetch i)))))"
proof (rule monitor_loop.raw_induct
    [where P = "\<lambda>os_limit fetch elapsed duration interval k tr y.
       sleep_accepts os_limit interval \<longrightarrow>
       snd y = Expired \<or>
       (snd y = Finished \<and>
        (\<exists>j. k \<le> j \<and> polls (fst y) = polls tr + Suc (j - k)
             \<and> terminal_row (check_job_status (fetch j))
             \<and> (\<forall>i. k \<le> i \<and> i < j \<longrightarrow> \<not> terminal_row (check_job_status (fetch i)))))",
     OF _ assms], goal_cases)
  case (1 loop os_limit fetch elapsed duration interval k tr y)
  show ?case
  proof
    assume ok: "sleep_accepts os_limit interval"
    show "snd y = Expired \<or>
         (snd y = Finished \<and>
          (\<exists>j. k \<le> j \<and> polls (fst y) = polls tr + Suc (j - k)
               \<and> terminal_row (check_job_status (fetch j))
               \<and> (\<forall>i. k \<le> i \<and> i < j \<longrightarrow> \<not> terminal_row (check_job_status (fetch i)))))"
    proof (cases "elapsed k < duration")
      case False
      with 1(2) show ?thesis by auto
    next
      case True
      note running = this
      show ?thesis
      proof (cases "terminal_row (check_job_status (fetch k))")
        case True
        obtain d where d: "check_job_status (fetch k) = JObj d"
          using True check_job_status_shape [of "fetch k"] by (auto simp: terminal_row_def)
        have "y = (tr @ [Get ''/rest/v1/content_jobs'', Get ''/rest/v1/content_job_events''],
                   Finished)"
          using running True d \<open>_ = Some y\<close>
          by (auto simp: Let_def terminal_row_def split: if_splits)
        then have "snd y = Finished" "polls (fst y) = polls tr + Suc (k - k)"
          by (simp_all add: polls_def)
        with True show ?thesis by (intro disjI2 conjI exI [of _ k]) auto
      next
        case False
        have next_round: "loop os_limit fetch elapsed duration interval (Suc k)
                (tr @ [Get ''/rest/v1/content_jobs'', Sleep interval]) = Some y"
        proof -
          consider "check_job_status (fetch k) = JNull"
            | d where "check_job_status (fetch k) = JObj d"
            using check_job_status_shape [of "fetch k"] by blast
          then show ?thesis
          proof cases
            case 1
            with running ok \<open>_ = Some y\<close> show ?thesis
              by (simp add: Let_def pause_def sleep_accepts_def)
          next
            case 2
            with running ok False \<open>_ = Some y\<close> show ?thesis
              by (simp add: Let_def pause_def sleep_accepts_def terminal_row_def
                  split: if_splits)
          qed
        qed
        from 1(1) [OF next_round] ok consider "snd y = Expired"
          | j where "snd y = Finished" "Suc k \<le> j"
            "polls (fst y) = polls (tr @ [Get ''/rest/v1/content_jobs'', Sleep interval])
                             + Suc (j - Suc k)"
            "terminal_row (check_job_status (fetch j))"
            "\<forall>i. Suc k \<le> i \<and> i < j \<longrightarrow> \<not> terminal_row (check_job_status (fetch i))"
          by blast
        then show ?thesis
        proof cases
          case 1
          then show ?thesis by simp
        next
          case 2
          have "polls (fst y) = polls tr + Suc (j - k)"
            using 2(2,3) by (simp add: polls_def)
          moreover have "\<forall>i. k \<le> i \<and> i < j \<longrightarrow> \<not> terminal_row (check_job_status (fetch i))"
            using 2(5) False by (metis le_antisym not_less_eq_eq)
          ultimately show ?thesis using 2(1,2,4) by (intro disjI2 conjI exI [of _ j]) auto
        qed
      qed
    qed
  qed
qed

text \<open>
  C5 (as the code has it). For an interval that \<open>time.sleep\<close> accepts, in both
  scripts: when the \<open>k\<close>-th poll is the first to fetch a terminal row and the
  duration has not elapsed at the loop tests up to it, \<open>monitor_job\<close> returns right
  after that poll, having made \<open>k + 1\<close> polls and slept \<open>k\<close> times; when no terminal
  row has been fetched and the \<open>k\<close>-th loop test is the first to find the duration
  elapsed, it stops there, after \<open>k\<close> polls and \<open>k\<close> sleeps.
\<close>

theorem monitor_job_stops:
  assumes "sleep_accepts os_limit interval"
    and "\<forall>i<k. elapsed i < duration \<and> \<not> terminal_row (check_job_status (fetch i))"
  shows "(elapsed k < duration \<and> terminal_row (check_job_status (fetch k)) \<longrightarrow>
            (\<exists>tr. monitor_job os_limit fetch elapsed duration interval = Some (tr, Finished)
                  \<and> polls tr = Suc k \<and> sleeps tr = k)
          \<and> (\<exists>tr. medidrive_monitor_job os_limit fmt fetch elapsed duration interval =
                     Some (tr, Finished)
                  \<and> polls tr = Suc k \<and> sleeps tr = k))
       \<and> (duration \<le> elapsed k \<longrightarrow>
            (\<exists>tr. monitor_job os_limit fetch elapsed duration interval = Some (tr, Expired)
                  \<and> polls tr = k \<and> sleeps tr = k)
          \<and> (\<exists>tr. medidrive_monitor_job os_limit fmt fetch elapsed duration interval =
                     Some (tr, Expired)
                  \<and> polls tr = k \<and> sleeps tr = k))"
proof -
  let ?rounds = "concat (replicate k [Get ''/rest/v1/content_jobs'', Sleep interval])"
  have run: "monitor_job os_limit fetch elapsed duration interval =
             monitor_loop os_limit fetch elapsed duration interval k ?rounds"
    unfolding monitor_job_def by (rule monitor_loop_run [OF assms])
  obtain prev tr where medi:
    "medidrive_monitor_job os_limit fmt fetch elapsed duration interval =
     medidrive_monitor_loop os_limit fmt fetch elapsed duration interval k prev tr"
    "polls tr = k" "sleeps tr = k"
    unfolding medidrive_monitor_job_def using medidrive_loop_run [OF assms, of fmt] by blast
  have counts: "polls ?rounds = k" "sleeps ?rounds = k"
    using polls_rounds [of k interval "[]"] sleeps_rounds [of k interval "[]"]
    by (simp_all add: polls_def sleeps_def)
  have fin: "\<exists>t. monitor_job os_limit fetch elapsed duration interval = Some (t, Finished)
                \<and> polls t = Suc k \<and> sleeps t = k"
    if "elapsed k < duration" "terminal_row (check_job_status (fetch k))"
  proof -
    have "polls (?rounds @ [Get ''/rest/v1/content_jobs'', Get ''/rest/v1/content_job_events''])
            = Suc k"
      and "sleeps (?rounds @ [Get ''/rest/v1/content_jobs'', Get ''/rest/v1/content_job_events''])
            = k"
      using polls_rounds [of k interval] sleeps_rounds [of k interval]
      by (simp_all add: polls_def sleeps_def)
    then show ?thesis
      using run monitor_loop_finish [where elapsed = elapsed and k = k and duration = duration
          and fetch = fetch and os_limit = os_limit and interval = interval] that
      by simp
  qed
  have mfin: "\<exists>t. medidrive_monitor_job os_limit fmt fetch elapsed duration interval =
                   Some (t, Finished)
                \<and> polls t = Suc k \<and> sleeps t = k"
    if "elapsed k < duration" "terminal_row (check_job_status (fetch k))"
    using medidrive_loop_finish [where elapsed = elapsed and k = k and duration = duration
        and fetch = fetch and os_limit = os_limit and fmt = fmt and interval = interval
        and prev = prev and tr = tr] that medi
    by auto
  have ex: "\<exists>t. monitor_job os_limit fetch elapsed duration interval = Some (t, Expired)
                \<and> polls t = k \<and> sleeps t = k"
    if "duration \<le> elapsed k"
    using run monitor_loop_expire [where elapsed = elapsed and k = k and duration = duration
        and fetch = fetch and os_limit = os_limit and interval = interval] that counts
    by simp
  have mex: "\<exists>t. medidrive_monitor_job os_limit fmt fetch elapsed duration interval =
                   Some (t, Expired)
                \<and> polls t = k \<and> sleeps t = k"
    if "duration \<le> elapsed k"
    using medi medidrive_loop_expire [where elapsed = elapsed and k = k and duration = duration
        and fetch = fetch and os_limit = os_limit and fmt = fmt and interval = interval
        and prev = prev and tr = tr] that
    by simp
  show ?thesis using fin mfin ex mex by blast
qed

theorem monitor_job_stops_witness:
  "(\<exists>tr. monitor_job 1000000
           (\<lambda>k. if k = 2 then Response 200 []
                                 (Some (JArr [JObj [(''status'', JStr ''completed'')]]))
                else NetTimeout)
           (\<lambda>k. int k * 5) 60 5 = Some (tr, Finished)
         \<and> polls tr = 3 \<and> sleeps tr = 2)
   \<and> (\<exists>tr. medidrive_monitor_job 1000000 (\<lambda>v. ''v'') (\<lambda>k. NetTimeout) (\<lambda>k. int k * 30) 60 10 =
             Some (tr, Expired)
         \<and> polls tr = 2 \<and> sleeps tr = 2)"
proof -
  have a1: "sleep_accepts 1000000 5" and a2: "sleep_accepts 1000000 10"
    by (simp_all add: sleep_accepts_def)
  have h1: "\<forall>i<2. int i * 5 < 60 \<and>
      \<not> terminal_row (check_job_status
          (if i = 2 then Response 200 [] (Some (JArr [JObj [(''status'', JStr ''completed'')]]))
           else NetTimeout))"
    by (auto simp: check_job_status_def terminal_row_def)
  have h2: "\<forall>i<2. int i * 30 < 60 \<and> \<not> terminal_row (check_job_status NetTimeout)"
    by (auto simp: check_job_status_def terminal_row_def)
  have t: "terminal_row (check_job_status
      (Response 200 [] (Some (JArr [JObj [(''status'', JStr ''completed'')]]))))"
    by (simp add: check_job_status_def terminal_row_def)
  show ?thesis
    using monitor_job_stops [where os_limit = 1000000 and interval = 5 and k = 2
        and elapsed = "\<lambda>k. int k * 5" and duration = 60
        and fetch = "\<lambda>k. if k = 2 then Response 200 []
                                (Some (JArr [JObj [(''status'', JStr ''completed'')]]))
                          else NetTimeout"
        and fmt = "\<lambda>v. ''v''", OF a1 h1]
      monitor_job_stops [where os_limit = 1000000 and interval = 10 and k = 2
        and elapsed = "\<lambda>k. int k * 30" and duration = 60 and fetch = "\<lambda>k. NetTimeout"
        and fmt = "\<lambda>v. ''v''", OF a2 h2] t
    by (simp add: numeral_3_eq_3 numeral_2_eq_2)
qed

text \<open>
  C5 as stated fails for a negative interval: after the first poll that is not
  terminal, \<open>time.sleep\<close> raises, and the function ends with that exception although
  no terminal status was fetched and the duration has not elapsed.
\<close>

theorem negative_interval_counterexample:
  "monitor_job 1000000
     (\<lambda>k. Response 200 [] (Some (JArr [JObj [(''status'', JStr ''processing'')]])))
     (\<lambda>k. 0) 60 (- 1) =
   Some ([Get ''/rest/v1/content_jobs''], Raised ValueError)"
  unfolding monitor_job_def
  by (subst monitor_loop.simps) (simp add: check_job_status_def pause_def)

text \<open>
  C10 (as the code has it). \<open>check_job_status\<close> returns \<open>None\<close> for a timeout, for
  any other transport failure, for a status other than 200, for a body that is not
  JSON and for an empty row list, and \<open>None\<close> is not a terminal row. With an
  interval that \<open>time.sleep\<close> accepts, \<open>monitor_job\<close> polls on through every fetch
  that is not terminal, failed or not: when the \<open>n\<close>-th loop test is the first to find
  the duration elapsed, the function has polled and slept \<open>n\<close> times and ends as
  expired. Whenever it ends in another way it has finished, and its last poll is the
  first that fetched a terminal row.
\<close>

theorem failed_fetch_keeps_polling:
  "check_job_status NetTimeout = JNull
   \<and> check_job_status NetError = JNull
   \<and> (st \<noteq> 200 \<longrightarrow> check_job_status (Response st txt js) = JNull)
   \<and> check_job_status (Response 200 txt None) = JNull
   \<and> check_job_status (Response 200 txt (Some (JArr []))) = JNull
   \<and> \<not> terminal_row JNull
   \<and> (sleep_accepts os_limit interval
        \<and> (\<forall>i<n. elapsed i < duration \<and> \<not> terminal_row (check_job_status (fetch i)))
        \<and> duration \<le> elapsed n \<longrightarrow>
        monitor_job os_limit fetch elapsed duration interval =
          Some (concat (replicate n [Get ''/rest/v1/content_jobs'', Sleep interval]), Expired))
   \<and> (sleep_accepts os_limit interval
        \<and> monitor_job os_limit fetch elapsed duration interval = Some (tr, r)
        \<and> r \<noteq> Expired \<longrightarrow>
        r = Finished
        \<and> (\<exists>k. polls tr = Suc k \<and> terminal_row (check_job_status (fetch k))
                \<and> (\<forall>i<k. \<not> terminal_row (check_job_status (fetch i)))))"
proof -
  have a: "monitor_job os_limit fetch elapsed duration interval =
          Some (concat (replicate n [Get ''/rest/v1/content_jobs'', Sleep interval]), Expired)"
    if "sleep_accepts os_limit interval"
      "\<forall>i<n. elapsed i < duration \<and> \<not> terminal_row (check_job_status (fetch i))"
      "duration \<le> elapsed n"
    using monitor_loop_run [OF that(1,2)]
      monitor_loop_expire [where elapsed = elapsed and k = n and duration = duration
        and fetch = fetch and os_limit = os_limit and interval = interval] that(3)
    by (simp add: monitor_job_def)
  have b: "r = Finished
        \<and> (\<exists>k. polls tr = Suc k \<and> terminal_row (check_job_status (fetch k))
                \<and> (\<forall>i<k. \<not> terminal_row (check_job_status (fetch i))))"
    if "sleep_accepts os_limit interval"
      "monitor_job os_limit fetch elapsed duration interval = Some (tr, r)" "r \<noteq> Expired"
    using monitor_loop_early [of os_limit fetch elapsed duration interval 0 "[]" "(tr, r)"] that
    by (auto simp: monitor_job_def polls_def)
  show ?thesis using a b by (simp add: check_job_status_def terminal_row_def)
qed

theorem failed_fetch_keeps_polling_witness:
  "check_job_status (Response 503 ''unavailable'' None) = JNull
   \<and> monitor_job 1000000
       (\<lambda>k. if k = 0 then Response 200 [] (Some (JArr [JObj [(''status'', JStr ''processing'')]]))
            else if k = 1 then Response 503 ''unavailable'' None
            else NetTimeout)
       (\<lambda>k. int k * 20) 60 10 =
     Some ([Get ''/rest/v1/content_jobs'', Sleep 10, Get ''/rest/v1/content_jobs'', Sleep 10,
            Get ''/rest/v1/content_jobs'', Sleep 10],
           Expired)"
proof -
  have h: "sleep_accepts 1000000 10 \<and>
      (\<forall>i<3. int i * 20 < 60 \<and>
         \<not> terminal_row (check_job_status
             (if i = 0 then Response 200 []
                              (Some (JArr [JObj [(''status'', JStr ''processing'')]]))
              else if i = 1 then Response 503 ''unavailable'' None
              else NetTimeout))) \<and>
      (60::int) \<le> int 3 * 20"
    by (auto simp: check_job_status_def terminal_row_def sleep_accepts_def)
  have r: "concat (replicate 3 [Get ''/rest/v1/content_jobs'', Sleep 10]) =
      [Get ''/rest/v1/content_jobs'', Sleep 10, Get ''/rest/v1/content_jobs'', Sleep 10,
       Get ''/rest/v1/content_jobs'', Sleep 10]"
    by (simp add: numeral_3_eq_3)
  have c: "check_job_status (Response 503 ''unavailable'' None) = JNull"
    using failed_fetch_keeps_polling [of 503 "''unavailable''" None,
        THEN conjunct2, THEN conjunct2, THEN conjunct1]
    by simp
  from failed_fetch_keeps_polling [where os_limit = 1000000 and interval = 10 and n = 3
      and elapsed = "\<lambda>k. int k * 20" and duration = 60
      and fetch = "\<lambda>k. if k = 0 then Response 200 []
                              (Some (JArr [JObj [(''status'', JStr ''processing'')]]))
                        else if k = 1 then Response 503 ''unavailable'' None
                        else NetTimeout",
      THEN conjunct2, THEN conjunct2, THEN conjunct2, THEN conjunct2, THEN conjunct2,
      THEN conjunct2, THEN conjunct1, rule_format, OF h]
  show ?thesis using c unfolding r by simp
qed

text \<open>
  C10 as stated fails for a negative interval: after one failed fetch the sleep
  raises and the loop ends, neither on a terminal status nor at the end of the
  duration.
\<close>

theorem failed_fetch_negative_interval_counterexample:
  "monitor_job 1000000 (\<lambda>k. NetTimeout) (\<lambda>k. 0) 60 (- 1) =
     Some ([Get ''/rest/v1/content_jobs''], Raised ValueError)"
  unfolding monitor_job_def
  by (subst monitor_loop.simps) (simp add: check_job_status_def pause_def)

subsection \<open>Generation with polling\<close>

lemma polling_loop_run:
  assumes "sleep_accepts os_limit poll_interval" and "\<forall>i<n. elapsed i < max_wait"
  shows "polling_loop os_limit elapsed max_wait poll_interval 0 tr =
         polling_loop os_limit elapsed max_wait poll_interval n
           (tr @ replicate n (Sleep poll_interval))"
  using assms(2)
proof (induction n)
  case 0
  show ?case by simp
next
  case (Suc n)
  have "polling_loop os_limit elapsed max_wait poll_interval 0 tr =
        polling_loop os_limit elapsed max_wait poll_interval n
          (tr @ replicate n (Sleep poll_interval))"
    using Suc by simp
  also have "\<dots> = polling_loop os_limit elapsed max_wait poll_interval (Suc n)
        ((tr @ replicate n (Sleep poll_interval)) @ [Sleep poll_interval])"
    using Suc.prems assms(1)
    by (subst polling_loop.simps) (simp add: pause_def sleep_accepts_def)
  finally show ?case by (simp add: replicate_append_same)
qed

lemma polling_loop_expire:
  "max_wait \<le> elapsed k \<Longrightarrow>
   polling_loop os_limit elapsed max_wait poll_interval k tr = Some (tr, Inr polling_timeout)"
  by (subst polling_loop.simps) simp

lemma polling_loop_result:
  assumes "polling_loop os_limit elapsed max_wait poll_interval k tr = Some y"
  shows "\<forall>result. snd y = Inr result \<longrightarrow> result = polling_timeout"
proof (rule polling_loop.raw_induct
    [where P = "\<lambda>os_limit elapsed max_wait poll_interval k tr y.
       \<forall>result. snd y = Inr result \<longrightarrow> result = polling_timeout",
     OF _ assms], goal_cases)
  case (1 loop os_limit elapsed max_wait poll_interval k tr y)
  show ?case
  proof (cases "elapsed k < max_wait")
    case False
    with 1(2) show ?thesis by auto
  next
    case True
    show ?thesis
    proof (cases "pause os_limit poll_interval")
      case (Inl e)
      with True 1(2) show ?thesis by auto
    next
      case (Inr slept)
      with True 1(2)
      have "loop os_limit elapsed max_wait poll_interval (Suc k) (tr @ slept) = Some y"
        by simp
      from 1(1) [OF this] show ?thesis .
    qed
  qed
qed

text \<open>
  C9 (as the code has it). \<open>generate_with_polling\<close> never returns a success result:
  the only value it returns is the dict whose \<open>success\<close> is \<open>False\<close> and whose
  \<open>error\<close> is \<open>Polling timeout\<close>. Unless the first request fails with an exception
  other than a timeout, and for a poll interval that \<open>time.sleep\<close> accepts, it sleeps
  at every loop test that finds less than \<open>max_wait\<close> elapsed and returns that dict
  at the first test that finds \<open>max_wait\<close> elapsed.
\<close>

theorem generate_with_polling_times_out:
  "(generate_with_polling os_limit kickoff elapsed max_wait poll_interval =
      Some (tr, Inr result) \<longrightarrow>
      result = JObj [(''success'', JBool False), (''error'', JStr ''Polling timeout'')])
   \<and> (kickoff \<noteq> NetError \<and> sleep_accepts os_limit poll_interval
        \<and> (\<forall>i<n. elapsed i < max_wait) \<and> max_wait \<le> elapsed n \<longrightarrow>
      generate_with_polling os_limit kickoff elapsed max_wait poll_interval =
        Some (Post ''/functions/v1/generate-side-by-side'' # replicate n (Sleep poll_interval),
              Inr (JObj [(''success'', JBool False), (''error'', JStr ''Polling timeout'')])))"
proof -
  have a: "result = polling_timeout"
    if "generate_with_polling os_limit kickoff elapsed max_wait poll_interval =
          Some (tr, Inr result)"
    using that
      polling_loop_result [of os_limit elapsed max_wait poll_interval 0
        "[Post ''/functions/v1/generate-side-by-side'']" "(tr, Inr result)"]
    by (cases kickoff) (simp_all add: generate_with_polling_def)
  have b: "generate_with_polling os_limit kickoff elapsed max_wait poll_interval =
        Some (Post ''/functions/v1/generate-side-by-side'' # replicate n (Sleep poll_interval),
              Inr polling_timeout)"
    if "kickoff \<noteq> NetError" "sleep_accepts os_limit poll_interval"
      "\<forall>i<n. elapsed i < max_wait" "max_wait \<le> elapsed n"
  proof -
    have "polling_loop os_limit elapsed max_wait poll_interval 0
            [Post ''/functions/v1/generate-side-by-side''] =
          Some (Post ''/functions/v1/generate-side-by-side'' # replicate n (Sleep poll_interval),
                Inr polling_timeout)"
      using polling_loop_run [OF that(2,3), of "[Post ''/functions/v1/generate-side-by-side'']"]
        polling_loop_expire [where max_wait = max_wait and elapsed = elapsed and k = n
          and os_limit = os_limit and poll_interval = poll_interval] that(4)
      by simp
    then show ?thesis
      using that(1) by (cases kickoff) (simp_all add: generate_with_polling_def)
  qed
  show ?thesis using a b unfolding polling_timeout_def by blast
qed

theorem generate_with_polling_times_out_witness:
  "generate_with_polling 1000000 NetTimeout (\<lambda>k. int k * 10) 30 10 =
     Some ([Post ''/functions/v1/generate-side-by-side'', Sleep 10, Sleep 10, Sleep 10],
           Inr (JObj [(''success'', JBool False), (''error'', JStr ''Polling timeout'')]))"
proof -
  have h: "NetTimeout \<noteq> NetError \<and> sleep_accepts 1000000 10 \<and> (\<forall>i<3. int i * 10 < 30)
           \<and> (30::int) \<le> int 3 * 10"
    by (auto simp: sleep_accepts_def)
  have r: "replicate 3 (Sleep 10) = [Sleep 10, Sleep 10, Sleep 10]"
    by (simp add: numeral_3_eq_3)
  from generate_with_polling_times_out
    [where os_limit = 1000000 and kickoff = NetTimeout and elapsed = "\<lambda>k. int k * 10"
       and max_wait = 30 and poll_interval = 10 and tr = "[]" and result = JNull and n = 3,
     THEN conjunct2, rule_format, OF h]
  show ?thesis unfolding r .
qed

text \<open>
  C9 as stated fails for a negative poll interval: the first \<open>time.sleep\<close> raises
  and the function returns nothing.
\<close>

theorem negative_poll_interval_counterexample:
  "generate_with_polling 1000000 (Response 200 [] None) (\<lambda>k. 0) 300 (- 1) =
     Some ([Post ''/functions/v1/generate-side-by-side''], Inl ValueError)"
  unfolding generate_with_polling_def
  by (subst polling_loop.simps) (simp add: pause_def)

end
